theory Spec2Isabelle
  imports Complex_Main
begin

section \<open>Errors\<close>

text \<open>
  The Python exceptions that the modelled code can raise. A function that can raise
  returns \<open>py_error + 'a\<close>, with \<open>Inl\<close> for the exception.
\<close>

datatype py_error =
  ZeroDivisionError | IndexError | AttributeError | NameError | AssertionError
  | TypeError | KeyError | FileNotFoundError

definition py_div :: "real \<Rightarrow> real \<Rightarrow> py_error + real" where
  \<comment> \<open>Python's \<open>/\<close>: a zero divisor raises.\<close>
  "py_div n m = (if m = 0 then Inl ZeroDivisionError else Inr (n / m))"

definition item :: "'a list \<Rightarrow> int \<Rightarrow> py_error + 'a" where
  \<comment> \<open>Python's \<open>xs[i]\<close>: a negative index counts from the end, out of range raises.\<close>
  "item xs i =
     (let j = (if i < 0 then i + int (length xs) else i)
      in if 0 \<le> j \<and> j < int (length xs) then Inr (xs ! nat j) else Inl IndexError)"

section \<open>Points (neferset.geometry)\<close>

text \<open>
  Scalars are Python numbers; they are modelled as reals, so arithmetic is exact.

  Modelled from the spec: \<open>neferset/geometry.py\<close> is not among the sources. The spec
  describes \<open>Point\<close> as an (x, y) scalar pair that supports add, subtract, scale and
  Euclidean distance; \<open>curved.py\<close> uses exactly these operations, and unpacks a point
  into its two coordinates.
\<close>

datatype Point = Point (px: real) (py: real)

definition padd :: "Point \<Rightarrow> Point \<Rightarrow> Point" where
  "padd p q = Point (px p + px q) (py p + py q)"

definition psub :: "Point \<Rightarrow> Point \<Rightarrow> Point" where
  "psub p q = Point (px p - px q) (py p - py q)"

definition pscale :: "real \<Rightarrow> Point \<Rightarrow> Point" where
  "pscale k p = Point (k * px p) (k * py p)"

definition distance :: "Point \<Rightarrow> Point \<Rightarrow> real" where
  "distance p q = sqrt ((px p - px q)\<^sup>2 + (py p - py q)\<^sup>2)"

section \<open>CubicBezier (neferset/curved.py)\<close>

text \<open>
  The object's attributes: the four control points, the eight polynomial coefficients
  \<open>a\<close> .. \<open>h\<close>, and the two caches \<open>_arc_lengths\<close> and \<open>_length\<close>.
\<close>

record CubicBezier =
  p0 :: Point
  p1 :: Point
  p2 :: Point
  p3 :: Point
  coef_a :: real
  coef_b :: real
  coef_c :: real
  coef_d :: real
  coef_e :: real
  coef_f :: real
  coef_g :: real
  coef_h :: real
  arc_lengths_cache :: "real list"
  length_cache :: real

definition from_points :: "Point \<Rightarrow> Point \<Rightarrow> Point \<Rightarrow> Point \<Rightarrow> CubicBezier \<Rightarrow> CubicBezier" where
  \<comment> \<open>\<open>_from_points\<close>: stores the points and rebuilds the coefficients; the caches are
      not touched.\<close>
  "from_points q0 q1 q2 q3 self =
     (let ae = psub (padd (psub q3 (pscale 3 q2)) (pscale 3 q1)) q0;
          bf = padd (psub (pscale 3 q2) (pscale 6 q1)) (pscale 3 q0);
          cg = psub (pscale 3 q1) (pscale 3 q0)
      in self\<lparr>p0 := q0, p1 := q1, p2 := q2, p3 := q3,
              coef_a := px ae, coef_e := py ae,
              coef_b := px bf, coef_f := py bf,
              coef_c := px cg, coef_g := py cg,
              coef_d := px q0, coef_h := py q0\<rparr>)"

definition blank :: CubicBezier where
  \<comment> \<open>The object before \<open>__init__\<close> has assigned anything; every field is overwritten
      by \<open>init_points\<close>.\<close>
  "blank = \<lparr>p0 = Point 0 0, p1 = Point 0 0, p2 = Point 0 0, p3 = Point 0 0,
            coef_a = 0, coef_b = 0, coef_c = 0, coef_d = 0,
            coef_e = 0, coef_f = 0, coef_g = 0, coef_h = 0,
            arc_lengths_cache = [], length_cache = 0\<rparr>"

definition init_points :: "Point \<Rightarrow> Point \<Rightarrow> Point \<Rightarrow> Point \<Rightarrow> CubicBezier" where
  \<comment> \<open>\<open>__init__\<close> with four points: \<open>_from_points\<close>, then empty caches.\<close>
  "init_points q0 q1 q2 q3 =
     (from_points q0 q1 q2 q3 blank)\<lparr>arc_lengths_cache := [], length_cache := 0\<rparr>"

definition init_coords ::
  "real \<Rightarrow> real \<Rightarrow> real \<Rightarrow> real \<Rightarrow> real \<Rightarrow> real \<Rightarrow> real \<Rightarrow> real \<Rightarrow> CubicBezier" where
  \<comment> \<open>\<open>__init__\<close> with eight coordinates (\<open>_from_coords\<close>).\<close>
  "init_coords x0 y0 x1 y1 x2 y2 x3 y3 =
     init_points (Point x0 y0) (Point x1 y1) (Point x2 y2) (Point x3 y3)"

definition evaluate :: "CubicBezier \<Rightarrow> real \<Rightarrow> Point" where
  "evaluate self t =
     Point (coef_a self * t ^ 3 + coef_b self * t ^ 2 + coef_c self * t + coef_d self)
           (coef_e self * t ^ 3 + coef_f self * t ^ 2 + coef_g self * t + coef_h self)"

definition tangent :: "CubicBezier \<Rightarrow> real \<Rightarrow> Point" where
  "tangent self t =
     Point (3 * coef_a self * t ^ 2 + 2 * coef_b self * t + coef_c self)
           (3 * coef_e self * t ^ 2 + 2 * coef_f self * t + coef_g self)"

fun estimate_loop ::
  "CubicBezier \<Rightarrow> nat \<Rightarrow> nat list \<Rightarrow> Point \<times> real \<times> real list \<Rightarrow> Point \<times> real \<times> real list" where
  \<comment> \<open>The body of the \<open>for i in range(1, max + 1)\<close> loop of \<open>estimate_length\<close>, on the
      loop variables \<open>prev\<close>, \<open>sum\<close> (here \<open>acc\<close>) and \<open>self._arc_lengths\<close>.\<close>
  "estimate_loop self mx [] st = st"
| "estimate_loop self mx (i # rest) (prev, acc, tbl) =
     (let p = evaluate self (real i / real mx);
          acc' = acc + distance prev p
      in estimate_loop self mx rest (p, acc', tbl @ [acc']))"

definition estimate_length :: "CubicBezier \<Rightarrow> nat \<Rightarrow> real \<times> CubicBezier" where
  \<comment> \<open>Returns the sum and the object with its table replaced.\<close>
  "estimate_length self segments =
     (let mx = segments + 1;
          prev = evaluate self 0;
          (p, acc, tbl) = estimate_loop self mx [1..<mx + 1] (prev, 0, [0])
      in (acc, self\<lparr>arc_lengths_cache := tbl\<rparr>))"

definition arc_lengths :: "CubicBezier \<Rightarrow> real list \<times> CubicBezier" where
  \<comment> \<open>The property \<open>arc_lengths\<close>: builds the table when the cache is empty.\<close>
  "arc_lengths self =
     (if length (arc_lengths_cache self) \<le> 0
      then (let (s, self1) = estimate_length self 100;
                self2 = self1\<lparr>length_cache := s\<rparr>
            in (arc_lengths_cache self2, self2))
      else (arc_lengths_cache self, self))"

definition length_prop :: "CubicBezier \<Rightarrow> real \<times> CubicBezier" where
  \<comment> \<open>The property \<open>length\<close>: recomputes while the cached value is not positive.\<close>
  "length_prop self =
     (if length_cache self \<le> 0
      then (let (s, self1) = estimate_length self 100;
                self2 = self1\<lparr>length_cache := s\<rparr>
            in (length_cache self2, self2))
      else (length_cache self, self))"

definition offset :: "CubicBezier \<Rightarrow> real \<Rightarrow> real \<Rightarrow> CubicBezier" where
  "offset self x y =
     (let p = Point x y
      in from_points (padd (p0 self) p) (padd (p1 self) p) (padd (p2 self) p)
           (padd (p3 self) p) self)"

definition andthen :: "'e + 'a \<Rightarrow> ('a \<Rightarrow> 'e + 'b) \<Rightarrow> 'e + 'b" where
  \<comment> \<open>Sequencing: an exception raised by the first step skips the rest.\<close>
  "andthen m k = (case m of Inl e \<Rightarrow> Inl e | Inr v \<Rightarrow> k v)"

fun scan :: "int \<Rightarrow> real \<Rightarrow> nat \<Rightarrow> real list \<Rightarrow> nat \<times> real \<Rightarrow> nat \<times> real" where
  \<comment> \<open>The \<open>for i, v in enumerate(self.arc_lengths)\<close> loop of \<open>parametrize\<close>, on the loop
      variables \<open>index\<close> and \<open>best\<close>; \<open>i\<close> is the position of the head of the list.\<close>
  "scan table_len target_len i [] (index, best) = (index, best)"
| "scan table_len target_len i (v # rest) (index, best) =
     (if int i \<ge> table_len - 1 then (index, best)
      else if v < target_len \<and> v > best then scan table_len target_len (Suc i) rest (i, v)
      else scan table_len target_len (Suc i) rest (index, best))"

definition parametrize :: "CubicBezier \<Rightarrow> real \<Rightarrow> py_error + (real \<times> CubicBezier)" where
  \<comment> \<open>Every read of the property \<open>self.arc_lengths\<close> is a call of \<open>arc_lengths\<close>, which
      may update the object; the result carries the object after the last read.\<close>
  "parametrize self u =
     (let (tbl1, s1) = arc_lengths self;
          table_len = int (length tbl1);
          (tbl2, s2) = arc_lengths s1
      in andthen (item tbl2 (table_len - 1)) (\<lambda>l.
         let target_len = u * l;
             (tbl3, s3) = arc_lengths s2;
             (index, best) = scan table_len target_len 0 tbl3 (0, 0);
             (tbl4, s4) = arc_lengths s3
         in andthen (item tbl4 (int index)) (\<lambda>v.
            if v = target_len
            then andthen (py_div (real index) (real_of_int (table_len - 1))) (\<lambda>t. Inr (t, s4))
            else
              (let (tbl5, s5) = arc_lengths s4
               in andthen (item tbl5 (int index)) (\<lambda>lb.
                  let (tbl6, s6) = arc_lengths s5
                  in andthen (item tbl6 (int index + 1)) (\<lambda>la.
                     let seg_len = la - lb
                     in andthen (py_div (target_len - lb) seg_len) (\<lambda>seg_frac.
                        andthen (py_div (real index + seg_frac) (real_of_int (table_len - 1)))
                          (\<lambda>t. Inr (t, s6)))))))))"

subsection \<open>The arc-length table as the spec words it\<close>

text \<open>
  The spec's description of the table, for comparison with \<open>estimate_length\<close>: entry
  \<open>i\<close> is the sum of the Euclidean distances between consecutive samples of
  \<open>evaluate\<close> at the uniform parameters \<open>0/mx, 1/mx, .., i/mx\<close>.
\<close>

definition spec_segment :: "CubicBezier \<Rightarrow> nat \<Rightarrow> nat \<Rightarrow> real" where
  "spec_segment self mx k =
     distance (evaluate self (real k / real mx)) (evaluate self (real (Suc k) / real mx))"

definition spec_cumulative :: "CubicBezier \<Rightarrow> nat \<Rightarrow> nat \<Rightarrow> real" where
  "spec_cumulative self mx i = (\<Sum>k<i. spec_segment self mx k)"

definition spec_table :: "CubicBezier \<Rightarrow> real list" where
  \<comment> \<open>At the resolution the properties use: \<open>segments = 100\<close>, so \<open>max = 101\<close> steps
      and 102 samples.\<close>
  "spec_table self = map (spec_cumulative self 101) [0..<102]"

subsection \<open>The states of a curve object\<close>

text \<open>
  The objects the code can produce: \<open>__init__\<close> builds one, and reading the properties
  \<open>arc_lengths\<close> and \<open>length\<close> and calling \<open>offset\<close> update it. (\<open>parametrize\<close> changes
  the object only through its reads of \<open>arc_lengths\<close>.)
\<close>

inductive curve_state :: "CubicBezier \<Rightarrow> bool" where
  init: "curve_state (init_points q0 q1 q2 q3)"
| read_arc_lengths: "curve_state c \<Longrightarrow> curve_state (snd (arc_lengths c))"
| read_length: "curve_state c \<Longrightarrow> curve_state (snd (length_prop c))"
| call_offset: "curve_state c \<Longrightarrow> curve_state (offset c x y)"

definition coefficients :: "CubicBezier \<Rightarrow> real list" where
  "coefficients c =
     [coef_a c, coef_b c, coef_c c, coef_d c, coef_e c, coef_f c, coef_g c, coef_h c]"

text \<open>
  Two invariants of these states. \<open>consistent\<close>: the coefficients are the ones
  \<open>_from_points\<close> derives from the stored control points. \<open>cache_ok\<close>: the caches
  are either both in their initial state or hold the table and its last entry.
\<close>

definition consistent :: "CubicBezier \<Rightarrow> bool" where
  "consistent c \<longleftrightarrow> coefficients c = coefficients (from_points (p0 c) (p1 c) (p2 c) (p3 c) c)"

definition cache_ok :: "CubicBezier \<Rightarrow> bool" where
  "cache_ok c \<longleftrightarrow>
     (arc_lengths_cache c = [] \<and> length_cache c = 0)
     \<or> (arc_lengths_cache c = spec_table c \<and> length_cache c = last (spec_table c))"

section \<open>CurvedText.draw: the shrink loop (neferset/curved.py)\<close>

text \<open>
  \<open>text_path\<close> belongs to \<open>neferset/drawing.py\<close>, which is not among the sources: it is
  a parameter of the model. For a font size it returns the glyph path, the measured
  width (\<open>extents.width\<close>) and the x-height; the context, the font and the text do not
  change during the loop. The loop is \<open>while True\<close>, so it is a partial function:
  \<open>None\<close> means that it does not return.
\<close>

definition size_step :: real where
  "size_step = 1"

partial_function (option) shrink_loop ::
  "(real \<Rightarrow> 'p \<times> real \<times> real) \<Rightarrow> CubicBezier \<Rightarrow> real
     \<Rightarrow> (('p \<times> real \<times> real) \<times> real \<times> CubicBezier) option" where
  "shrink_loop text_path curve size' =
     (let (path, width, xheight) = text_path size';
          (len, curve') = length_prop curve
      in if width > len then shrink_loop text_path curve' (size' - size_step)
         else Some ((path, width, xheight), size', curve'))"

definition fixed_width :: "real \<Rightarrow> real \<Rightarrow> unit \<times> real \<times> real" where
  \<comment> \<open>A shaper for examples: it reports the same width at every size.\<close>
  "fixed_width w size' = ((), w, 0)"

definition width_is_size :: "real \<Rightarrow> unit \<times> real \<times> real" where
  \<comment> \<open>A shaper for examples: the width of the text is the font size.\<close>
  "width_is_size size' = ((), size', 0)"

section \<open>The blend of set_watermark (custom.py)\<close>

text \<open>
  Modelled from the spec: \<open>Vector4\<close> belongs to \<open>geometry.py\<close>, which is not among
  the sources. The spec describes the blend as componentwise arithmetic on fractional
  RGBA values; \<open>custom.py\<close> multiplies two vectors, multiplies a vector by a scalar,
  adds and subtracts vectors, reads and assigns the component \<open>a\<close>, and iterates over
  the four components in the order r, g, b, a.
\<close>

datatype Vector4 = Vector4 (vr: real) (vg: real) (vb: real) (va: real)

definition vmul :: "Vector4 \<Rightarrow> Vector4 \<Rightarrow> Vector4" where
  "vmul p q = Vector4 (vr p * vr q) (vg p * vg q) (vb p * vb q) (va p * va q)"

definition vscale :: "Vector4 \<Rightarrow> real \<Rightarrow> Vector4" where
  "vscale p k = Vector4 (vr p * k) (vg p * k) (vb p * k) (va p * k)"

definition vadd :: "Vector4 \<Rightarrow> Vector4 \<Rightarrow> Vector4" where
  "vadd p q = Vector4 (vr p + vr q) (vg p + vg q) (vb p + vb q) (va p + va q)"

definition vsub :: "Vector4 \<Rightarrow> Vector4 \<Rightarrow> Vector4" where
  "vsub p q = Vector4 (vr p - vr q) (vg p - vg q) (vb p - vb q) (va p - va q)"

definition set_a :: "Vector4 \<Rightarrow> real \<Rightarrow> Vector4" where
  "set_a p k = Vector4 (vr p) (vg p) (vb p) k"

text \<open>A pixel of an RGBA image, as \<open>getdata()\<close> yields it: four integers.\<close>

type_synonym pixel = "int \<times> int \<times> int \<times> int"

definition py_round :: "real \<Rightarrow> int" where
  \<comment> \<open>Python 3's \<open>round\<close> with one argument: to the nearest integer, ties to even.\<close>
  "py_round v =
     (let f = \<lfloor>v\<rfloor>; d = v - of_int f
      in if d < 1 / 2 then f else if d > 1 / 2 then f + 1
         else if even f then f else f + 1)"

definition rgb_to_bytes :: "Vector4 \<Rightarrow> pixel" where
  "rgb_to_bytes color =
     (py_round (vr color * 255), py_round (vg color * 255),
      py_round (vb color * 255), py_round (va color * 255))"

definition rgb_from_bytes :: "pixel \<Rightarrow> Vector4" where
  "rgb_from_bytes color =
     (case color of (r, g, b, a) \<Rightarrow>
        Vector4 (of_int r / 255) (of_int g / 255) (of_int b / 255) (of_int a / 255))"

fun blend_loop ::
  "Vector4 \<Rightarrow> real \<Rightarrow> pixel list \<Rightarrow> pixel list \<Rightarrow> nat list \<Rightarrow> pixel list
     \<Rightarrow> py_error + pixel list" where
  \<comment> \<open>The \<open>for i in range(len(r0_data))\<close> loop, on the variable \<open>out_data\<close>.\<close>
  "blend_loop tint intensity r0_data r1_data [] out_data = Inr out_data"
| "blend_loop tint intensity r0_data r1_data (i # rest) out_data =
     (case item r0_data (int i) of Inl e \<Rightarrow> Inl e | Inr b0 \<Rightarrow>
     (case item r1_data (int i) of Inl e \<Rightarrow> Inl e | Inr b1 \<Rightarrow>
        (let r0 = rgb_from_bytes b0;
             r1 = rgb_from_bytes b1
         in if va r0 = 0
            then blend_loop tint intensity r0_data r1_data rest (out_data @ [rgb_to_bytes r1])
            else
              (let r0a = vscale (vmul r0 tint) intensity;
                   r2 = vsub (vmul r1 r0a) r1;
                   r0b = vadd (vscale r2 (va r0a)) r1;
                   r0c = set_a r0b 1
               in blend_loop tint intensity r0_data r1_data rest
                    (out_data @ [rgb_to_bytes r0c])))))"

record pil_image =
  im_width :: nat
  im_height :: nat
  im_data :: "pixel list"

definition blend ::
  "Vector4 \<Rightarrow> real \<Rightarrow> pil_image \<Rightarrow> pil_image \<Rightarrow> py_error + pil_image" where
  \<comment> \<open>Lines 96 to 118 of \<open>custom.py\<close>: the two \<open>getdata()\<close> calls, the assertion, the
      loop, and the new image that receives \<open>out_data\<close>.\<close>
  "blend tint intensity set_img descp_img =
     (let r0_data = im_data set_img;
          r1_data = im_data descp_img
      in if length r0_data \<noteq> im_width descp_img * im_height descp_img
         then Inl AssertionError
         else andthen (blend_loop tint intensity r0_data r1_data [0..<length r0_data] [])
                (\<lambda>out_data. Inr \<lparr>im_width = im_width descp_img,
                                    im_height = im_height descp_img,
                                    im_data = out_data\<rparr>))"

definition well_formed :: "pil_image \<Rightarrow> bool" where
  \<comment> \<open>What every image object satisfies: one pixel per position.\<close>
  "well_formed img \<longleftrightarrow> length (im_data img) = im_width img * im_height img"

definition all_transparent :: "pil_image \<Rightarrow> bool" where
  \<comment> \<open>Every pixel has alpha 0.\<close>
  "all_transparent img \<longleftrightarrow> list_all (\<lambda>p. snd (snd (snd p)) = 0) (im_data img)"

text \<open>Two small images for examples.\<close>

definition sample_base :: pil_image where
  "sample_base = \<lparr>im_width = 1, im_height = 2,
                   im_data = [(10, 20, 30, 255), (0, 128, 255, 7)]\<rparr>"

definition sample_mask :: pil_image where
  "sample_mask = \<lparr>im_width = 1, im_height = 2, im_data = [(5, 6, 7, 0), (0, 0, 0, 0)]\<rparr>"

section \<open>Components (component.py)\<close>

text \<open>
  The enums and classes of \<open>component.py\<close>. \<open>ComponentType.description\<close> is an alias of
  \<open>powers\<close> (same value), so it is not a member of its own. \<open>ShapeType\<close> has the three
  members below and no other. The classes \<open>Image\<close>, \<open>Text\<close> and \<open>Clip\<close> extend
  \<open>Region\<close>. \<open>Component.__init__\<close> assigns exactly the seven attributes of the record
  \<open>Component\<close>.
\<close>

datatype ComponentType =
  CT_powers | CT_elite | CT_health | CT_cost | CT_attack | CT_name | CT_multiClass | CT_race
  | CT_rarity | CT_cardSet | CT_classDecoration | CT_base | CT_portrait

datatype ShapeType = ST_rectangle | ST_ellipse | ST_curve

record Region =
  region_x :: real
  region_y :: real
  region_width :: real
  region_height :: real

record Image = Region +
  assets :: "string \<rightharpoonup> string"

record Clip = Region +
  clip_type :: ShapeType

type_synonym Text = Region

record Curve =
  curve_start :: "real \<times> real"
  curve_end :: "real \<times> real"
  curve_c1 :: "real \<times> real"
  curve_c2 :: "real \<times> real"

text \<open>
  The \<open>custom\<close> dictionary of a component: the handler's name and the entries that
  \<open>set_watermark\<close> reads for the blend and for drawing. (Its entries \<open>raceOffset\<close>,
  \<open>region\<close> and \<open>setIcons\<close> only position and locate the icon, whose loading is
  outside the model.)
\<close>

record Custom =
  custom_name :: string
  custom_image :: Image
  blendIntensity :: real
  custom_tint :: "string \<rightharpoonup> Vector4"

text \<open>
  The dictionary that \<open>main\<close> passes as \<open>data\<close> for the card-set component, together
  with what the file system and the image library return to \<open>set_watermark\<close>: whether
  the card's set is craftable, the name parts of the cache file, the cache files that
  exist, whether the set icon exists, the mask image \<open>set_img\<close> (here \<open>data_set_img\<close>) (a transparent image
  of the size the theme declares for the base image, with the resized icon pasted), and
  the base image \<open>descp_img\<close> as opened from its file.
\<close>

record watermark_data =
  card_set_craftable :: bool
  has_race :: bool
  premium :: bool
  cardtype :: string
  set_name :: string
  cache_files :: "string list"
  icon_found :: bool
  data_set_img :: pil_image
  data_descp_img :: pil_image

record Component =
  comp_layer :: int
  comp_text :: "Text option"
  comp_image :: "Image option"
  comp_clip :: "Clip option"
  comp_curve :: "Curve option"
  comp_custom :: "Custom option"
  comp_type :: ComponentType

record ComponentData =
  data_key :: "string option"
  data_text :: "string option"
  data_override :: "string option"
  data_data :: "watermark_data option"

record Font =
  font_type :: string

section \<open>The canvas\<close>

text \<open>
  Modelled from the spec: the cairo drawing context and \<open>neferset/drawing.py\<close> are not among the
  sources. The spec's RenderCanvas is a raster target with an active clip that restricts
  drawing until it is reset. The model keeps the current path, the installed clip
  regions (empty: no clip), every drawing operation together with the clip in force
  when it was made, the lines printed, the image files saved, and whether the output
  image was written. \<open>clip()\<close> installs the current path as a further clip region and
  clears the path; \<open>reset_clip()\<close> removes every clip region.
\<close>

datatype shape = Ellipse real real real real | Rectangle real real real real

datatype draw_op =
  PngAsset Image string string
  | TextBlock Text string Font
  | TextLine Text string Font
  | CurvedTextOp Curve string Font
  | ImageFile string real real

record canvas =
  cur_path :: "shape list"
  clip_region :: "shape list list"
  drawn :: "(draw_op \<times> shape list list) list"
  stdout :: "string list"
  saved :: "(string \<times> pil_image) list"
  written :: bool

type_synonym result = "(py_error \<times> canvas) + canvas"

definition raised :: "result \<Rightarrow> py_error option" where
  \<comment> \<open>The exception a run ended with, if any.\<close>
  "raised r = (case r of Inl (e, ctx) \<Rightarrow> Some e | Inr ctx \<Rightarrow> None)"

definition state_of :: "result \<Rightarrow> canvas" where
  \<comment> \<open>The canvas at the end of a run, or at the point where the exception was raised.\<close>
  "state_of r = (case r of Inl (e, ctx) \<Rightarrow> ctx | Inr ctx \<Rightarrow> ctx)"

definition setup_context :: canvas where
  "setup_context = \<lparr>cur_path = [], clip_region = [], drawn = [], stdout = [], saved = [],
                     written = False\<rparr>"

definition rect_ellipse :: "canvas \<Rightarrow> real \<Rightarrow> real \<Rightarrow> real \<Rightarrow> real \<Rightarrow> canvas" where
  "rect_ellipse ctx x y w h = ctx\<lparr>cur_path := cur_path ctx @ [Ellipse x y w h]\<rparr>"

definition clip :: "canvas \<Rightarrow> canvas" where
  "clip ctx = ctx\<lparr>clip_region := clip_region ctx @ [cur_path ctx], cur_path := []\<rparr>"

definition reset_clip :: "canvas \<Rightarrow> canvas" where
  "reset_clip ctx = ctx\<lparr>clip_region := []\<rparr>"

definition draw :: "canvas \<Rightarrow> draw_op \<Rightarrow> canvas" where
  "draw ctx dop = ctx\<lparr>drawn := drawn ctx @ [(dop, clip_region ctx)]\<rparr>"

definition py_print :: "canvas \<Rightarrow> string \<Rightarrow> canvas" where
  "py_print ctx line = ctx\<lparr>stdout := stdout ctx @ [line]\<rparr>"

definition truthy :: "string option \<Rightarrow> bool" where
  \<comment> \<open>Python's truth value of an optional string: \<open>None\<close> and \<open>""\<close> are false.\<close>
  "truthy s = (case s of None \<Rightarrow> False | Some v \<Rightarrow> v \<noteq> [])"

section \<open>set_watermark (custom.py)\<close>

definition image_path :: "watermark_data \<Rightarrow> string" where
  \<comment> \<open>The name of the cache file: card type, \<open>_premium\<close>, \<open>_race\<close>, set name.\<close>
  "image_path d =
     (let image_name = cardtype d @ (if premium d then ''_premium'' else [])
            @ (if has_race d then ''_race'' else []) @ ''_'' @ set_name d
      in ''.cache/'' @ image_name @ ''.png'')"

definition set_watermark :: "canvas \<Rightarrow> Custom \<Rightarrow> watermark_data option \<Rightarrow> result" where
  \<comment> \<open>\<open>data\<close> is \<open>None\<close> for every component but the card set: \<open>data["card"]\<close> then
      raises TypeError.\<close>
  "set_watermark ctx custom data =
     (case data of
        None \<Rightarrow> Inl (TypeError, ctx)
      | Some d \<Rightarrow>
          if \<not> card_set_craftable d then Inr ctx
          else
            (let base_image = custom_image custom
             in if image_path d \<in> set (cache_files d)
                then Inr (draw ctx (ImageFile (image_path d) (region_x base_image)
                                      (region_y base_image)))
                else if \<not> icon_found d
                then Inl (FileNotFoundError,
                          py_print ctx (''ERROR: set icon missing for '' @ set_name d))
                else
                  (case custom_tint custom (cardtype d) of
                     None \<Rightarrow> Inl (KeyError, ctx)
                   | Some tnt \<Rightarrow>
                      (case blend tnt (blendIntensity custom) (data_set_img d) (data_descp_img d) of
                         Inl e \<Rightarrow> Inl (e, ctx)
                       | Inr out \<Rightarrow>
                           Inr (draw (ctx\<lparr>saved := saved ctx @ [(image_path d, out)]\<rparr>)
                                  (ImageFile (image_path d) (region_x base_image)
                                     (region_y base_image)))))))"

section \<open>The pipeline (generate.py)\<close>

definition theme :: string where
  "theme = ''../hearthforge/styles/default/''"

definition artwork :: string where
  "artwork = ''./output/artwork/''"

definition type_repr :: "ComponentType \<Rightarrow> string" where
  \<comment> \<open>What \<open>print(component.type)\<close> prints.\<close>
  "type_repr t = ''ComponentType.'' @
     (case t of CT_powers \<Rightarrow> ''powers'' | CT_elite \<Rightarrow> ''elite'' | CT_health \<Rightarrow> ''health''
      | CT_cost \<Rightarrow> ''cost'' | CT_attack \<Rightarrow> ''attack'' | CT_name \<Rightarrow> ''name''
      | CT_multiClass \<Rightarrow> ''multiClass'' | CT_race \<Rightarrow> ''race'' | CT_rarity \<Rightarrow> ''rarity''
      | CT_cardSet \<Rightarrow> ''cardSet'' | CT_classDecoration \<Rightarrow> ''classDecoration''
      | CT_base \<Rightarrow> ''base'' | CT_portrait \<Rightarrow> ''portrait'')"

definition shape_type_path :: "canvas \<Rightarrow> (py_error \<times> canvas) + ShapeType" where
  \<comment> \<open>The expression \<open>ShapeType.path\<close>: the enum of \<open>component.py\<close> has no member
      \<open>path\<close>, so evaluating it raises AttributeError.\<close>
  "shape_type_path ctx = Inl (AttributeError, ctx)"

definition draw_rectangle ::
  "canvas \<Rightarrow> real \<Rightarrow> real \<Rightarrow> real \<Rightarrow> real \<Rightarrow> result" where
  \<comment> \<open>\<open>generate.py\<close> neither defines nor imports \<open>draw_rectangle\<close> (it imports
      \<open>rectangle\<close>): the call raises NameError.\<close>
  "draw_rectangle ctx x y w h = Inl (NameError, ctx)"

definition draw_clip_region :: "canvas \<Rightarrow> Clip \<Rightarrow> result" where
  \<comment> \<open>The \<open>if\<close>/\<open>elif\<close> chain evaluates its conditions in order.\<close>
  "draw_clip_region ctx obj =
     (if clip_type obj = ST_ellipse
      then Inr (rect_ellipse ctx (region_x obj) (region_y obj) (region_width obj)
                  (region_height obj))
      else if clip_type obj = ST_rectangle
      then draw_rectangle ctx (region_x obj) (region_y obj) (region_width obj)
             (region_height obj)
      else andthen (shape_type_path ctx) (\<lambda>path.
             if clip_type obj = path then Inr ctx
             else if clip_type obj = ST_curve
             then Inr (py_print ctx ''ERROR: unable to use a curve as a clipping region'')
             else Inr ctx))"

definition component_font :: "canvas \<Rightarrow> Component \<Rightarrow> (py_error \<times> canvas) + Font" where
  \<comment> \<open>The expression \<open>component.font\<close>: \<open>Component\<close> has no attribute \<open>font\<close>, so
      evaluating it raises AttributeError.\<close>
  "component_font ctx component = Inl (AttributeError, ctx)"

datatype custom_attr = SetWatermark | NotAHandler

definition custom_getattr :: "string \<Rightarrow> custom_attr option" where
  \<comment> \<open>\<open>hasattr\<close>/\<open>getattr\<close> on the module \<open>custom\<close>, over the names its source binds.
      Only \<open>set_watermark\<close> takes the three arguments of the call; the two conversion
      functions take one, \<open>component\<close> is a module, and \<open>Vector4\<close> and \<open>draw_image\<close> are
      used with four arguments.\<close>
  "custom_getattr n =
     (if n = ''set_watermark'' then Some SetWatermark
      else if n \<in> set [''rgb_to_bytes'', ''rgb_from_bytes'', ''component'', ''Vector4'',
                          ''draw_image'']
      then Some NotAHandler
      else None)"

definition render_component :: "canvas \<Rightarrow> Component \<Rightarrow> ComponentData \<Rightarrow> result" where
  "render_component ctx component data =
     (let ctx0 = py_print ctx (type_repr (comp_type component))
      in andthen
           (case comp_clip component of
              None \<Rightarrow> Inr ctx0
            | Some c \<Rightarrow> andthen (draw_clip_region ctx0 c) (\<lambda>ctx1. Inr (clip ctx1)))
         (\<lambda>ctx1.
          let ctx2 =
                (case comp_image component of
                   None \<Rightarrow> ctx1
                 | Some img \<Rightarrow>
                     if truthy (data_override data)
                     then reset_clip (draw ctx1
                            (PngAsset img artwork (the (data_override data))))
                     else (case data_key data of
                             None \<Rightarrow> ctx1
                           | Some k \<Rightarrow>
                               if k \<in> dom (assets img)
                               then reset_clip (draw ctx1 (PngAsset img theme k))
                               else ctx1))
          in andthen
               (case comp_text component of
                  None \<Rightarrow> Inr ctx2
                | Some t \<Rightarrow>
                    andthen (component_font ctx2 component) (\<lambda>font.
                      case data_text data of
                        None \<Rightarrow> Inr ctx2
                      | Some txt \<Rightarrow>
                          if txt = [] then Inr ctx2
                          else if font_type font = ''textBlock''
                          then Inr (draw ctx2 (TextBlock t txt font))
                          else Inr (draw ctx2 (TextLine t txt font))))
             (\<lambda>ctx3.
              andthen
                (case comp_curve component of
                   None \<Rightarrow> Inr ctx3
                 | Some cv \<Rightarrow>
                     andthen (component_font ctx3 component) (\<lambda>font.
                       case data_text data of
                         None \<Rightarrow> Inr ctx3
                       | Some txt \<Rightarrow>
                           if txt = [] then Inr ctx3
                           else Inr (draw ctx3 (CurvedTextOp cv txt font))))
              (\<lambda>ctx4.
               case comp_custom component of
                 None \<Rightarrow> Inr ctx4
               | Some custom \<Rightarrow>
                   (case custom_getattr (custom_name custom) of
                      None \<Rightarrow> Inr ctx4
                    | Some SetWatermark \<Rightarrow> set_watermark ctx4 custom (data_data data)
                    | Some NotAHandler \<Rightarrow> Inl (TypeError, ctx4))))))"

fun render_components ::
  "(Component \<Rightarrow> ComponentData option) \<Rightarrow> canvas \<Rightarrow> Component list \<Rightarrow> result" where
  \<comment> \<open>The \<open>for c in components\<close> loop of \<open>main\<close>. The chain that picks \<open>cdata\<close> from the
      card is the parameter \<open>cdata_of\<close> (\<open>None\<close>: no branch applies, nothing is
      rendered). Nothing catches an exception of \<open>render_component\<close>.\<close>
  "render_components cdata_of ctx [] = Inr ctx"
| "render_components cdata_of ctx (c # rest) =
     (case cdata_of c of
        None \<Rightarrow> render_components cdata_of ctx rest
      | Some cdata \<Rightarrow>
          (case render_component ctx c cdata of
             Inl e \<Rightarrow> Inl e
           | Inr ctx' \<Rightarrow> render_components cdata_of ctx' rest))"

definition main :: "(Component \<Rightarrow> ComponentData option) \<Rightarrow> Component list \<Rightarrow> result" where
  \<comment> \<open>\<open>main\<close> from the sort on: stable sort by layer, a new context, the loop, and
      writing the image.\<close>
  "main cdata_of components =
     andthen (render_components cdata_of setup_context (sort_key comp_layer components))
       (\<lambda>ctx. Inr (ctx\<lparr>written := True\<rparr>))"

subsection \<open>Example themes and cards\<close>

text \<open>
  A rarity layer with an elliptic clip region whose image has assets for the rarities
  common and rare only, rendered for a legendary card; a base layer; a portrait layer
  whose clip region has the shape curve; a card-set layer with the watermark handler,
  for a data set in which the mask has two pixels and the base image one.
\<close>

definition rarity_component :: Component where
  "rarity_component =
     \<lparr>comp_layer = 1, comp_text = None,
      comp_image = Some \<lparr>region_x = 0, region_y = 0, region_width = 60, region_height = 60,
                         assets = [''common'' \<mapsto> ''rarity-common.png'',
                                   ''rare'' \<mapsto> ''rarity-rare.png'']\<rparr>,
      comp_clip = Some \<lparr>region_x = 10, region_y = 10, region_width = 50, region_height = 50,
                        clip_type = ST_ellipse\<rparr>,
      comp_curve = None, comp_custom = None, comp_type = CT_rarity\<rparr>"

definition base_image :: Image where
  "base_image = \<lparr>region_x = 0, region_y = 0, region_width = 764, region_height = 1100,
                  assets = [''default'' \<mapsto> ''base.png'']\<rparr>"

definition base_component :: Component where
  "base_component =
     \<lparr>comp_layer = 2, comp_text = None, comp_image = Some base_image, comp_clip = None,
      comp_curve = None, comp_custom = None, comp_type = CT_base\<rparr>"

definition portrait_component :: Component where
  "portrait_component =
     \<lparr>comp_layer = 0, comp_text = None,
      comp_image = Some \<lparr>region_x = 100, region_y = 75, region_width = 590,
                         region_height = 590, assets = Map.empty\<rparr>,
      comp_clip = Some \<lparr>region_x = 180, region_y = 100, region_width = 430,
                        region_height = 540, clip_type = ST_curve\<rparr>,
      comp_curve = None, comp_custom = None, comp_type = CT_portrait\<rparr>"

definition sample_small :: pil_image where
  "sample_small = \<lparr>im_width = 1, im_height = 1, im_data = [(10, 20, 30, 255)]\<rparr>"

definition watermark_custom :: Custom where
  "watermark_custom =
     \<lparr>custom_name = ''set_watermark'', custom_image = base_image, blendIntensity = 1,
      custom_tint = [''minion'' \<mapsto> Vector4 1 1 1 1]\<rparr>"

definition cardset_component :: Component where
  "cardset_component =
     \<lparr>comp_layer = 1, comp_text = None, comp_image = None, comp_clip = None,
      comp_curve = None, comp_custom = Some watermark_custom, comp_type = CT_cardSet\<rparr>"

definition mismatched :: watermark_data where
  "mismatched =
     \<lparr>card_set_craftable = True, has_race = False, premium = False, cardtype = ''minion'',
      set_name = ''loe'', cache_files = [], icon_found = True,
      data_set_img = sample_mask, data_descp_img = sample_small\<rparr>"

definition legendary_data :: ComponentData where
  "legendary_data =
     \<lparr>data_key = Some ''legendary'', data_text = None, data_override = None,
      data_data = None\<rparr>"

definition default_data :: ComponentData where
  "default_data =
     \<lparr>data_key = Some ''default'', data_text = None, data_override = None,
      data_data = None\<rparr>"

definition portrait_data :: ComponentData where
  "portrait_data =
     \<lparr>data_key = None, data_text = None, data_override = Some ''LOE_076.png'',
      data_data = None\<rparr>"

definition cardset_data :: ComponentData where
  "cardset_data =
     \<lparr>data_key = None, data_text = None, data_override = None,
      data_data = Some mismatched\<rparr>"

definition demo_cdata :: "Component \<Rightarrow> ComponentData option" where
  "demo_cdata c =
     (case comp_type c of
        CT_rarity \<Rightarrow> Some legendary_data
      | CT_base \<Rightarrow> Some default_data
      | CT_portrait \<Rightarrow> Some portrait_data
      | CT_cardSet \<Rightarrow> Some cardset_data
      | _ \<Rightarrow> None)"

section \<open>Endpoints\<close>

lemma evaluate_0: "evaluate self 0 = Point (coef_d self) (coef_h self)"
  by (simp add: evaluate_def)

lemma evaluate_1:
  "evaluate self 1 =
     Point (coef_a self + coef_b self + coef_c self + coef_d self)
           (coef_e self + coef_f self + coef_g self + coef_h self)"
  by (simp add: evaluate_def)

lemma from_points_sum_x:
  "coef_a (from_points q0 q1 q2 q3 s) + coef_b (from_points q0 q1 q2 q3 s)
     + coef_c (from_points q0 q1 q2 q3 s) + coef_d (from_points q0 q1 q2 q3 s) = px q3"
  by (simp add: from_points_def Let_def padd_def psub_def pscale_def)

lemma from_points_sum_y:
  "coef_e (from_points q0 q1 q2 q3 s) + coef_f (from_points q0 q1 q2 q3 s)
     + coef_g (from_points q0 q1 q2 q3 s) + coef_h (from_points q0 q1 q2 q3 s) = py q3"
  by (simp add: from_points_def Let_def padd_def psub_def pscale_def)

lemma from_points_dh:
  "coef_d (from_points q0 q1 q2 q3 s) = px q0" "coef_h (from_points q0 q1 q2 q3 s) = py q0"
  by (simp_all add: from_points_def Let_def)


section \<open>The arc-length table\<close>

lemma spec_cumulative_Suc:
  "spec_cumulative self mx (Suc j) = spec_cumulative self mx j + spec_segment self mx j"
  by (simp add: spec_cumulative_def)

lemma spec_cumulative_0: "spec_cumulative self mx 0 = 0"
  by (simp add: spec_cumulative_def)

lemma estimate_loop_upt:
  "j \<le> n \<Longrightarrow>
   estimate_loop self mx [Suc j..<Suc n]
     (evaluate self (real j / real mx), spec_cumulative self mx j,
      map (spec_cumulative self mx) [0..<Suc j])
   = (evaluate self (real n / real mx), spec_cumulative self mx n,
      map (spec_cumulative self mx) [0..<Suc n])"
proof (induction "n - j" arbitrary: j)
  case 0
  then have "j = n" by simp
  then show ?case by simp
next
  case (Suc d)
  then have lt: "j < n" and d: "d = n - Suc j" and le: "Suc j \<le> n" by simp_all
  have unfold: "[Suc j..<Suc n] = Suc j # [Suc (Suc j)..<Suc n]"
    using lt by (simp add: upt_conv_Cons)
  have tbl: "map (spec_cumulative self mx) [0..<Suc j] @ [spec_cumulative self mx (Suc j)]
      = map (spec_cumulative self mx) [0..<Suc (Suc j)]"
    by simp
  have "estimate_loop self mx [Suc j..<Suc n]
     (evaluate self (real j / real mx), spec_cumulative self mx j,
      map (spec_cumulative self mx) [0..<Suc j])
    = estimate_loop self mx [Suc (Suc j)..<Suc n]
     (evaluate self (real (Suc j) / real mx), spec_cumulative self mx (Suc j),
      map (spec_cumulative self mx) [0..<Suc j] @ [spec_cumulative self mx (Suc j)])"
    unfolding unfold
    by (simp only: estimate_loop.simps Let_def spec_cumulative_Suc spec_segment_def)
  also have "\<dots> = (evaluate self (real n / real mx), spec_cumulative self mx n,
      map (spec_cumulative self mx) [0..<Suc n])"
    unfolding tbl by (rule Suc.hyps(1) [OF d le])
  finally show ?case .
qed

lemma estimate_length_table:
  "estimate_length self segments =
     (spec_cumulative self (segments + 1) (segments + 1),
      self\<lparr>arc_lengths_cache := map (spec_cumulative self (segments + 1)) [0..<segments + 2]\<rparr>)"
proof -
  have "estimate_loop self (Suc segments) [Suc 0..<Suc (Suc segments)]
     (evaluate self (real 0 / real (Suc segments)), spec_cumulative self (Suc segments) 0,
      map (spec_cumulative self (Suc segments)) [0..<Suc 0])
   = (evaluate self (real (Suc segments) / real (Suc segments)),
      spec_cumulative self (Suc segments) (Suc segments),
      map (spec_cumulative self (Suc segments)) [0..<Suc (Suc segments)])"
    by (rule estimate_loop_upt) simp
  moreover have "map (spec_cumulative self (Suc segments)) [0..<Suc 0] = [0]"
    by (simp add: spec_cumulative_0)
  moreover have "evaluate self (real 0 / real (Suc segments)) = evaluate self 0"
    by simp
  ultimately have "estimate_loop self (Suc segments) [Suc 0..<Suc (Suc segments)]
     (evaluate self 0, 0, [0])
   = (evaluate self (real (Suc segments) / real (Suc segments)),
      spec_cumulative self (Suc segments) (Suc segments),
      map (spec_cumulative self (Suc segments)) [0..<Suc (Suc segments)])"
    by (simp only: spec_cumulative_0)
  then show ?thesis
    unfolding estimate_length_def Let_def
    by (simp del: upt_Suc of_nat_Suc)
qed


lemma distance_nonneg: "0 \<le> distance p q"
  by (simp add: distance_def)

lemma distance_eq_0: "distance p q = 0 \<longleftrightarrow> p = q"
proof -
  have "(px p - px q)\<^sup>2 + (py p - py q)\<^sup>2 = 0 \<longleftrightarrow> px p = px q \<and> py p = py q"
    by simp
  moreover have "p = q \<longleftrightarrow> px p = px q \<and> py p = py q"
    by (cases p; cases q) simp
  ultimately show ?thesis
    by (simp add: distance_def)
qed

lemma distance_pos: "p \<noteq> q \<Longrightarrow> 0 < distance p q"
  using distance_nonneg [of p q] distance_eq_0 [of p q] by linarith

lemma spec_segment_nonneg: "0 \<le> spec_segment self mx k"
  by (simp add: spec_segment_def distance_nonneg)

lemma spec_cumulative_mono: "i \<le> j \<Longrightarrow> spec_cumulative self mx i \<le> spec_cumulative self mx j"
  unfolding spec_cumulative_def
  by (rule sum_mono2) (auto simp: spec_segment_nonneg)

lemma spec_cumulative_nonneg: "0 \<le> spec_cumulative self mx i"
  unfolding spec_cumulative_def by (rule sum_nonneg) (simp add: spec_segment_nonneg)

lemma length_spec_table: "length (spec_table self) = 102"
  by (simp add: spec_table_def)

lemma nth_spec_table: "i < 102 \<Longrightarrow> spec_table self ! i = spec_cumulative self 101 i"
  unfolding spec_table_def by (simp del: upt_Suc)

lemma sorted_spec_table: "sorted (spec_table self)"
  unfolding sorted_iff_nth_mono length_spec_table
  by (simp add: nth_spec_table spec_cumulative_mono)

lemma last_spec_table: "last (spec_table self) = spec_cumulative self 101 101"
proof -
  have "last (spec_table self) = spec_table self ! (length (spec_table self) - 1)"
    by (rule last_conv_nth) (simp add: spec_table_def)
  then show ?thesis by (simp add: length_spec_table nth_spec_table)
qed

lemma spec_table_nonempty: "spec_table self \<noteq> []"
  using length_spec_table [of self] by auto

lemma estimate_length_100:
  "estimate_length self 100 =
     (last (spec_table self), self\<lparr>arc_lengths_cache := spec_table self\<rparr>)"
proof -
  have "estimate_length self 100 =
     (spec_cumulative self (100 + 1) (100 + 1),
      self\<lparr>arc_lengths_cache := map (spec_cumulative self (100 + 1)) [0..<100 + 2]\<rparr>)"
    by (rule estimate_length_table)
  moreover have "(100::nat) + 1 = 101" "(100::nat) + 2 = 102" by simp_all
  ultimately have "estimate_length self 100 =
     (spec_cumulative self 101 101,
      self\<lparr>arc_lengths_cache := map (spec_cumulative self 101) [0..<102]\<rparr>)"
    by simp
  then show ?thesis
    by (simp only: last_spec_table flip: spec_table_def)
qed

subsection \<open>Invariants of the object\<close>

lemma spec_table_cong:
  "coefficients c = coefficients c' \<Longrightarrow> spec_table c = spec_table c'"
  by (simp add: coefficients_def spec_table_def spec_cumulative_def spec_segment_def
      evaluate_def)

lemma coefficients_caches [simp]:
  "coefficients (c\<lparr>arc_lengths_cache := t\<rparr>) = coefficients c"
  "coefficients (c\<lparr>length_cache := l\<rparr>) = coefficients c"
  by (simp_all add: coefficients_def)

lemma arc_lengths_empty:
  "arc_lengths_cache c = [] \<Longrightarrow>
   arc_lengths c =
     (spec_table c, c\<lparr>arc_lengths_cache := spec_table c, length_cache := last (spec_table c)\<rparr>)"
  by (simp add: arc_lengths_def estimate_length_100)

lemma arc_lengths_nonempty:
  "arc_lengths_cache c \<noteq> [] \<Longrightarrow> arc_lengths c = (arc_lengths_cache c, c)"
  by (simp add: arc_lengths_def)

lemma length_prop_recompute:
  "length_cache c \<le> 0 \<Longrightarrow>
   length_prop c =
     (last (spec_table c),
      c\<lparr>arc_lengths_cache := spec_table c, length_cache := last (spec_table c)\<rparr>)"
  by (simp add: length_prop_def estimate_length_100)

lemma length_prop_cached:
  "0 < length_cache c \<Longrightarrow> length_prop c = (length_cache c, c)"
  by (simp add: length_prop_def)

lemma from_points_fields [simp]:
  "p0 (from_points q0 q1 q2 q3 c) = q0" "p1 (from_points q0 q1 q2 q3 c) = q1"
  "p2 (from_points q0 q1 q2 q3 c) = q2" "p3 (from_points q0 q1 q2 q3 c) = q3"
  "arc_lengths_cache (from_points q0 q1 q2 q3 c) = arc_lengths_cache c"
  "length_cache (from_points q0 q1 q2 q3 c) = length_cache c"
  by (simp_all add: from_points_def Let_def)

lemma coefficients_from_points:
  "coefficients (from_points q0 q1 q2 q3 c) = coefficients (from_points q0 q1 q2 q3 c')"
  by (simp add: coefficients_def from_points_def Let_def)

lemma consistent_from_points: "consistent (from_points q0 q1 q2 q3 c)"
  unfolding consistent_def from_points_fields by (rule coefficients_from_points)

lemma consistent_caches [simp]:
  "consistent (c\<lparr>arc_lengths_cache := t\<rparr>) = consistent c"
  "consistent (c\<lparr>length_cache := l\<rparr>) = consistent c"
  by (simp_all add: consistent_def coefficients_def from_points_def Let_def)

lemma distance_translate: "distance (padd p v) (padd q v) = distance p q"
  by (simp add: distance_def padd_def)

lemma consistent_coefs:
  assumes "consistent c"
  shows "coef_a c = px (p3 c) - 3 * px (p2 c) + 3 * px (p1 c) - px (p0 c)"
    and "coef_b c = 3 * px (p2 c) - 6 * px (p1 c) + 3 * px (p0 c)"
    and "coef_c c = 3 * px (p1 c) - 3 * px (p0 c)"
    and "coef_d c = px (p0 c)"
    and "coef_e c = py (p3 c) - 3 * py (p2 c) + 3 * py (p1 c) - py (p0 c)"
    and "coef_f c = 3 * py (p2 c) - 6 * py (p1 c) + 3 * py (p0 c)"
    and "coef_g c = 3 * py (p1 c) - 3 * py (p0 c)"
    and "coef_h c = py (p0 c)"
  using assms
  by (simp_all add: consistent_def coefficients_def from_points_def Let_def padd_def
      psub_def pscale_def)

lemma offset_coefs:
  assumes "consistent c"
  shows "coef_a (offset c x y) = coef_a c" "coef_b (offset c x y) = coef_b c"
    "coef_c (offset c x y) = coef_c c" "coef_d (offset c x y) = coef_d c + x"
    "coef_e (offset c x y) = coef_e c" "coef_f (offset c x y) = coef_f c"
    "coef_g (offset c x y) = coef_g c" "coef_h (offset c x y) = coef_h c + y"
  unfolding consistent_coefs [OF assms]
  by (simp_all add: offset_def from_points_def Let_def padd_def psub_def pscale_def)

lemma evaluate_offset:
  assumes "consistent c"
  shows "evaluate (offset c x y) t = padd (evaluate c t) (Point x y)"
  by (simp add: evaluate_def offset_coefs [OF assms] padd_def)

lemma spec_table_offset:
  "consistent c \<Longrightarrow> spec_table (offset c x y) = spec_table c"
  by (simp add: spec_table_def spec_cumulative_def spec_segment_def evaluate_offset
      distance_translate)

lemma offset_caches [simp]:
  "arc_lengths_cache (offset c x y) = arc_lengths_cache c"
  "length_cache (offset c x y) = length_cache c"
  by (simp_all add: offset_def Let_def)

lemma consistent_offset: "consistent (offset c x y)"
  unfolding offset_def Let_def by (rule consistent_from_points)

lemma spec_table_caches [simp]:
  "spec_table (c\<lparr>arc_lengths_cache := t\<rparr>) = spec_table c"
  "spec_table (c\<lparr>length_cache := l\<rparr>) = spec_table c"
  by (rule spec_table_cong, simp)+

lemma cache_ok_arc_lengths: "cache_ok c \<Longrightarrow> cache_ok (snd (arc_lengths c))"
  by (cases "arc_lengths_cache c = []")
     (simp_all add: arc_lengths_empty arc_lengths_nonempty cache_ok_def)

lemma cache_ok_length_prop: "cache_ok c \<Longrightarrow> cache_ok (snd (length_prop c))"
  by (cases "length_cache c \<le> 0")
     (simp_all add: length_prop_recompute length_prop_cached cache_ok_def)

lemma consistent_arc_lengths: "consistent c \<Longrightarrow> consistent (snd (arc_lengths c))"
  by (cases "arc_lengths_cache c = []")
     (simp_all add: arc_lengths_empty arc_lengths_nonempty)

lemma consistent_length_prop: "consistent c \<Longrightarrow> consistent (snd (length_prop c))"
  by (cases "length_cache c \<le> 0")
     (simp_all add: length_prop_recompute length_prop_cached)

lemma curve_state_inv: "curve_state c \<Longrightarrow> consistent c \<and> cache_ok c"
proof (induction rule: curve_state.induct)
  case (init q0 q1 q2 q3)
  show ?case
    by (simp add: init_points_def consistent_from_points cache_ok_def)
next
  case (read_arc_lengths c)
  then show ?case by (simp add: cache_ok_arc_lengths consistent_arc_lengths)
next
  case (read_length c)
  then show ?case by (simp add: cache_ok_length_prop consistent_length_prop)
next
  case (call_offset c x y)
  then show ?case
    by (simp add: consistent_offset cache_ok_def spec_table_offset)
qed

section \<open>Lazy construction of the table\<close>

lemma cache_ok_table:
  assumes "cache_ok c"
  shows "arc_lengths c =
     (spec_table c, c\<lparr>arc_lengths_cache := spec_table c, length_cache := last (spec_table c)\<rparr>)"
proof (cases "arc_lengths_cache c = []")
  case True
  then show ?thesis by (rule arc_lengths_empty)
next
  case False
  with assms have "arc_lengths_cache c = spec_table c" "length_cache c = last (spec_table c)"
    by (simp_all add: cache_ok_def)
  then show ?thesis
    using False by (simp add: arc_lengths_nonempty)
qed

lemma cache_ok_length:
  assumes "cache_ok c"
  shows "fst (length_prop c) = last (spec_table c)"
proof (cases "length_cache c \<le> 0")
  case True
  then show ?thesis by (simp add: length_prop_recompute)
next
  case False
  with assms have "length_cache c = last (spec_table c)"
    by (auto simp: cache_ok_def)
  then show ?thesis
    using False by (simp add: length_prop_cached)
qed

lemma arc_lengths_twice:
  assumes "cache_ok c"
  shows "arc_lengths (snd (arc_lengths c)) = arc_lengths c"
proof -
  have "arc_lengths_cache (snd (arc_lengths c)) \<noteq> []"
    by (simp add: cache_ok_table [OF assms] spec_table_nonempty)
  then have "arc_lengths (snd (arc_lengths c))
      = (arc_lengths_cache (snd (arc_lengths c)), snd (arc_lengths c))"
    by (rule arc_lengths_nonempty)
  then show ?thesis
    by (simp add: cache_ok_table [OF assms])
qed

text \<open>
  C4. A new object has an empty table. For every curve object, reading \<open>arc_lengths\<close>
  gives the table the spec describes (cumulative Euclidean distances between the 102
  samples of \<open>evaluate\<close> at the parameters \<open>i/101\<close>); it has 102 entries, is
  non-decreasing, and its last entry is the value of the \<open>length\<close> property. The read
  stores the table, and a second read returns the stored table without rebuilding.
\<close>

theorem arc_lengths_table:
  assumes "curve_state c"
  shows "arc_lengths_cache (init_points q0 q1 q2 q3) = []
    \<and> fst (arc_lengths c) = spec_table c
    \<and> length (fst (arc_lengths c)) = 102
    \<and> sorted (fst (arc_lengths c))
    \<and> last (fst (arc_lengths c)) = fst (length_prop c)
    \<and> arc_lengths_cache (snd (arc_lengths c)) = fst (arc_lengths c)
    \<and> arc_lengths (snd (arc_lengths c)) = arc_lengths c"
proof -
  have ok: "cache_ok c"
    using assms by (simp add: curve_state_inv)
  have fresh: "arc_lengths_cache (init_points q0 q1 q2 q3) = []"
    by (simp add: init_points_def)
  have tbl: "fst (arc_lengths c) = spec_table c"
    by (simp add: cache_ok_table [OF ok])
  have stored: "arc_lengths_cache (snd (arc_lengths c)) = fst (arc_lengths c)"
    by (simp add: cache_ok_table [OF ok])
  have len: "last (fst (arc_lengths c)) = fst (length_prop c)"
    by (simp add: tbl cache_ok_length [OF ok])
  show ?thesis
    using fresh stored len arc_lengths_twice [OF ok]
    by (simp add: tbl length_spec_table sorted_spec_table)
qed

theorem arc_lengths_table_witness:
  "curve_state (init_points (Point 0 0) (Point 1 0) (Point 2 0) (Point 3 0))
   \<and> length (fst (arc_lengths (init_points (Point 0 0) (Point 1 0) (Point 2 0) (Point 3 0)))) = 102
   \<and> sorted (fst (arc_lengths (init_points (Point 0 0) (Point 1 0) (Point 2 0) (Point 3 0))))
   \<and> last (fst (arc_lengths (init_points (Point 0 0) (Point 1 0) (Point 2 0) (Point 3 0))))
       = fst (length_prop (init_points (Point 0 0) (Point 1 0) (Point 2 0) (Point 3 0)))"
proof -
  have h: "curve_state (init_points (Point 0 0) (Point 1 0) (Point 2 0) (Point 3 0))"
    by (rule curve_state.init)
  show ?thesis
    using h arc_lengths_table [OF h] by blast
qed

section \<open>Translation\<close>



section \<open>Inverse lookup\<close>

lemma item_nth: "k < length xs \<Longrightarrow> item xs (int k) = Inr (xs ! k)"
  by (simp add: item_def)

lemma item_spec_table: "k < 102 \<Longrightarrow> item (spec_table c) (int k) = Inr (spec_table c ! k)"
  by (simp add: item_nth length_spec_table)

lemma andthen_Inr [simp]: "andthen (Inr v) k = k v"
  by (simp add: andthen_def)

lemma andthen_Inl [simp]: "andthen (Inl e) k = Inl e"
  by (simp add: andthen_def)

lemma parametrize_cached:
  assumes "cache_ok c"
  shows "parametrize c u =
     (let target_len = u * (spec_table c ! 101);
          (index, best) = scan 102 target_len 0 (spec_table c) (0, 0)
      in andthen (item (spec_table c) (int index)) (\<lambda>v.
         if v = target_len
         then andthen (py_div (real index) 101) (\<lambda>t. Inr (t, snd (arc_lengths c)))
         else andthen (item (spec_table c) (int index)) (\<lambda>lb.
              andthen (item (spec_table c) (int index + 1)) (\<lambda>la.
              andthen (py_div (target_len - lb) (la - lb)) (\<lambda>seg_frac.
              andthen (py_div (real index + seg_frac) 101)
                (\<lambda>t. Inr (t, snd (arc_lengths c))))))))"
proof -
  obtain c' where c': "snd (arc_lengths c) = c'" by simp
  have first: "arc_lengths c = (spec_table c, c')"
    using cache_ok_table [OF assms] c' by simp
  have again: "arc_lengths c' = (spec_table c, c')"
    using arc_lengths_twice [OF assms] first c' by simp
  have last_item: "item (spec_table c) 101 = Inr (spec_table c ! 101)"
    using item_spec_table [of 101 c] by simp
  show ?thesis
    unfolding parametrize_def c'
    by (simp add: first again length_spec_table last_item Let_def
        split: prod.split cong: if_cong)
qed

lemma scan_none:
  "\<forall>v \<in> set vs. \<not> v < t \<Longrightarrow> scan n t i vs (index, best) = (index, best)"
  by (induction vs arbitrary: i) simp_all

lemma scan_append:
  "int (i + length xs) \<le> n - 1 \<Longrightarrow>
   scan n t i (xs @ ys) acc = scan n t (i + length xs) ys (scan n t i xs acc)"
proof (induction xs arbitrary: i acc)
  case Nil
  then show ?case by (cases acc) simp
next
  case (Cons v xs)
  obtain index best where acc: "acc = (index, best)" by (cases acc)
  have nb: "\<not> int i \<ge> n - 1" using Cons.prems by simp
  have le: "int (Suc i + length xs) \<le> n - 1" using Cons.prems by simp
  show ?case
    using Cons.IH [OF le] nb by (simp add: acc)
qed

lemma scan_best_le:
  "\<forall>v \<in> set vs. v \<le> m \<Longrightarrow> best \<le> m \<Longrightarrow> snd (scan n t i vs (index, best)) \<le> m"
  by (induction vs arbitrary: i index best) simp_all

lemma spec_table_0: "spec_table c ! 0 = 0"
  by (simp add: nth_spec_table spec_cumulative_0)

lemma spec_table_nonneg: "k < 102 \<Longrightarrow> 0 \<le> spec_table c ! k"
  by (simp add: nth_spec_table spec_cumulative_nonneg)

lemma spec_table_mono: "i \<le> j \<Longrightarrow> j < 102 \<Longrightarrow> spec_table c ! i \<le> spec_table c ! j"
  by (simp add: nth_spec_table spec_cumulative_mono)

lemma spec_table_set_nonneg: "v \<in> set (spec_table c) \<Longrightarrow> 0 \<le> v"
  by (auto simp: in_set_conv_nth length_spec_table spec_table_nonneg)

lemma parametrize_0:
  assumes "cache_ok c"
  shows "parametrize c 0 = Inr (0, snd (arc_lengths c))"
proof -
  have "\<forall>v \<in> set (spec_table c). \<not> v < 0"
    by (simp add: not_less spec_table_set_nonneg)
  then have sc: "scan 102 0 0 (spec_table c) (0, 0) = (0, 0)"
    by (rule scan_none)
  have it: "item (spec_table c) 0 = Inr 0"
    using item_spec_table [of 0 c] by (simp add: spec_table_0)
  show ?thesis
    by (simp add: parametrize_cached [OF assms] sc it py_div_def)
qed

lemma drop_100: "drop 100 (spec_table c) = [spec_table c ! 100, spec_table c ! 101]"
proof -
  have "drop 100 (spec_table c) = spec_table c ! 100 # drop (Suc 100) (spec_table c)"
    by (rule Cons_nth_drop_Suc [symmetric]) (simp add: length_spec_table)
  also have "drop (Suc 100) (spec_table c)
      = spec_table c ! (Suc 100) # drop (Suc (Suc 100)) (spec_table c)"
    by (rule Cons_nth_drop_Suc [symmetric]) (simp add: length_spec_table)
  finally show ?thesis by (simp add: length_spec_table)
qed

lemma drop_99:
  "drop 99 (spec_table c) = [spec_table c ! 99, spec_table c ! 100, spec_table c ! 101]"
proof -
  have "drop 99 (spec_table c) = spec_table c ! 99 # drop (Suc 99) (spec_table c)"
    by (rule Cons_nth_drop_Suc [symmetric]) (simp add: length_spec_table)
  then show ?thesis by (simp add: drop_100)
qed

lemma scan_prefix_best:
  assumes "k < 102"
  shows "snd (scan 102 t 0 (take (Suc k) (spec_table c)) (0, 0)) \<le> spec_table c ! k"
proof (rule scan_best_le)
  show "\<forall>v \<in> set (take (Suc k) (spec_table c)). v \<le> spec_table c ! k"
  proof
    fix v assume "v \<in> set (take (Suc k) (spec_table c))"
    then obtain j where "j < Suc k" "v = spec_table c ! j"
      by (auto simp: in_set_conv_nth)
    then show "v \<le> spec_table c ! k"
      using assms by (simp add: spec_table_mono)
  qed
  show "0 \<le> spec_table c ! k"
    using assms by (rule spec_table_nonneg)
qed

lemma scan_rising_end:
  assumes "spec_table c ! 99 < spec_table c ! 100" and "spec_table c ! 100 < t"
  shows "scan 102 t 0 (spec_table c) (0, 0) = (100, spec_table c ! 100)"
proof -
  let ?T = "spec_table c"
  obtain ix b where pre: "scan 102 t 0 (take 100 ?T) (0, 0) = (ix, b)"
    by (cases "scan 102 t 0 (take 100 ?T) (0, 0)")
  have "snd (scan 102 t 0 (take (Suc 99) ?T) (0, 0)) \<le> ?T ! 99"
    by (rule scan_prefix_best) simp
  then have b: "b \<le> ?T ! 99" by (simp add: pre)
  have "?T = take 100 ?T @ drop 100 ?T" by simp
  then have "scan 102 t 0 ?T (0, 0) = scan 102 t 0 (take 100 ?T @ drop 100 ?T) (0, 0)"
    by simp
  also have "\<dots> = scan 102 t (0 + length (take 100 ?T)) (drop 100 ?T)
      (scan 102 t 0 (take 100 ?T) (0, 0))"
    by (rule scan_append) (simp add: length_spec_table)
  also have "\<dots> = scan 102 t 100 [?T ! 100, ?T ! 101] (ix, b)"
    by (simp add: length_spec_table pre drop_100)
  also have "\<dots> = (100, ?T ! 100)"
    using assms b by simp
  finally show ?thesis .
qed

lemma scan_plateau_end:
  assumes "spec_table c ! 98 < spec_table c ! 99" and "spec_table c ! 99 = spec_table c ! 100"
    and "spec_table c ! 100 < t"
  shows "scan 102 t 0 (spec_table c) (0, 0) = (99, spec_table c ! 99)"
proof -
  let ?T = "spec_table c"
  obtain ix b where pre: "scan 102 t 0 (take 99 ?T) (0, 0) = (ix, b)"
    by (cases "scan 102 t 0 (take 99 ?T) (0, 0)")
  have "snd (scan 102 t 0 (take (Suc 98) ?T) (0, 0)) \<le> ?T ! 98"
    by (rule scan_prefix_best) simp
  then have b: "b \<le> ?T ! 98" by (simp add: pre)
  have "?T = take 99 ?T @ drop 99 ?T" by simp
  then have "scan 102 t 0 ?T (0, 0) = scan 102 t 0 (take 99 ?T @ drop 99 ?T) (0, 0)"
    by simp
  also have "\<dots> = scan 102 t (0 + length (take 99 ?T)) (drop 99 ?T)
      (scan 102 t 0 (take 99 ?T) (0, 0))"
    by (rule scan_append) (simp add: length_spec_table)
  also have "\<dots> = scan 102 t 99 [?T ! 99, ?T ! 100, ?T ! 101] (ix, b)"
    by (simp add: length_spec_table pre drop_99)
  also have "\<dots> = (99, ?T ! 99)"
    using assms b by simp
  finally show ?thesis .
qed

lemma parametrize_1:
  assumes "cache_ok c"
    and "spec_table c ! 99 < spec_table c ! 100" and "spec_table c ! 100 < spec_table c ! 101"
  shows "parametrize c 1 = Inr (1, snd (arc_lengths c))"
proof -
  have sc: "scan 102 (spec_table c ! 101) 0 (spec_table c) (0, 0) = (100, spec_table c ! 100)"
    using assms(2,3) by (rule scan_rising_end)
  have it: "item (spec_table c) 100 = Inr (spec_table c ! 100)"
    "item (spec_table c) 101 = Inr (spec_table c ! 101)"
    using item_spec_table [of 100 c] item_spec_table [of 101 c] by simp_all
  show ?thesis
    using assms(3) by (simp add: parametrize_cached [OF assms(1)] sc it py_div_def)
qed

lemma parametrize_plateau:
  assumes "cache_ok c"
    and "spec_table c ! 98 < spec_table c ! 99" and "spec_table c ! 99 = spec_table c ! 100"
    and "spec_table c ! 100 < spec_table c ! 101"
  shows "parametrize c 1 = Inl ZeroDivisionError"
proof -
  have sc: "scan 102 (spec_table c ! 101) 0 (spec_table c) (0, 0) = (99, spec_table c ! 99)"
    using assms(2,3,4) by (rule scan_plateau_end)
  have it: "item (spec_table c) 99 = Inr (spec_table c ! 99)"
    "item (spec_table c) 100 = Inr (spec_table c ! 100)"
    using item_spec_table [of 99 c] item_spec_table [of 100 c] by simp_all
  show ?thesis
    using assms(3,4) by (simp add: parametrize_cached [OF assms(1)] sc it py_div_def)
qed

lemma zero_length_table:
  assumes "last (spec_table c) = 0"
  shows "spec_table c = replicate 102 0"
proof (rule nth_equalityI)
  show "length (spec_table c) = length (replicate 102 (0::real))"
    by (simp add: length_spec_table)
next
  fix i assume "i < length (spec_table c)"
  then have i: "i < 102" by (simp add: length_spec_table)
  have "spec_table c ! 101 = 0"
    using assms by (simp add: last_spec_table nth_spec_table)
  moreover have "spec_table c ! i \<le> spec_table c ! 101"
    using i by (simp add: spec_table_mono)
  moreover have "0 \<le> spec_table c ! i"
    using i by (rule spec_table_nonneg)
  ultimately show "spec_table c ! i = replicate 102 0 ! i"
    using i by simp
qed

lemma parametrize_zero_length:
  assumes "cache_ok c" and "last (spec_table c) = 0"
  shows "parametrize c u = Inr (0, snd (arc_lengths c))"
proof -
  have z: "spec_table c ! 101 = 0"
    using assms(2) by (simp add: last_spec_table nth_spec_table)
  have "\<forall>v \<in> set (spec_table c). \<not> v < 0"
    by (simp add: not_less spec_table_set_nonneg)
  then have sc: "scan 102 0 0 (spec_table c) (0, 0) = (0, 0)"
    by (rule scan_none)
  have it: "item (spec_table c) 0 = Inr 0"
    using item_spec_table [of 0 c] by (simp add: spec_table_0)
  show ?thesis
    by (simp add: parametrize_cached [OF assms(1)] z sc it py_div_def)
qed

subsection \<open>Concrete curves\<close>

lemma spec_table_Suc:
  "k < 101 \<Longrightarrow> spec_table c ! Suc k = spec_table c ! k + spec_segment c 101 k"
  by (simp add: nth_spec_table spec_cumulative_Suc)

lemma spec_table_step_flat:
  assumes "k < 101"
    and "evaluate c (real k / 101) = evaluate c (real (Suc k) / 101)"
  shows "spec_table c ! Suc k = spec_table c ! k"
  using assms by (simp add: spec_table_Suc spec_segment_def distance_eq_0)

lemma spec_table_step_rise:
  assumes "k < 101"
    and "evaluate c (real k / 101) \<noteq> evaluate c (real (Suc k) / 101)"
  shows "spec_table c ! k < spec_table c ! Suc k"
  using assms distance_pos [of "evaluate c (real k / 101)" "evaluate c (real (Suc k) / 101)"]
  by (simp add: spec_table_Suc spec_segment_def)

lemma evaluate_init_coords:
  "evaluate (init_coords x0 y0 x1 y1 x2 y2 x3 y3) t =
     Point ((x3 - 3 * x2 + 3 * x1 - x0) * t ^ 3 + (3 * x2 - 6 * x1 + 3 * x0) * t ^ 2
            + (3 * x1 - 3 * x0) * t + x0)
           ((y3 - 3 * y2 + 3 * y1 - y0) * t ^ 3 + (3 * y2 - 6 * y1 + 3 * y0) * t ^ 2
            + (3 * y1 - 3 * y0) * t + y0)"
  by (simp add: evaluate_def init_coords_def init_points_def from_points_def Let_def
      padd_def psub_def pscale_def)

lemma curve_state_init_coords: "curve_state (init_coords x0 y0 x1 y1 x2 y2 x3 y3)"
  unfolding init_coords_def by (rule curve_state.init)

lemma line_table_rises:
  "k < 101 \<Longrightarrow> spec_table (init_coords 0 0 1 0 2 0 3 0) ! k
      < spec_table (init_coords 0 0 1 0 2 0 3 0) ! Suc k"
  by (rule spec_table_step_rise) (simp_all add: evaluate_init_coords)

lemma dip_98: "evaluate (init_coords 29700 0 9601 0 (- 297) 0 6 0) (98 / 101) = Point 6 0"
  by (simp add: evaluate_init_coords power_divide)

lemma dip_99: "evaluate (init_coords 29700 0 9601 0 (- 297) 0 6 0) (99 / 101) = Point 0 0"
  by (simp add: evaluate_init_coords power_divide)

lemma dip_100: "evaluate (init_coords 29700 0 9601 0 (- 297) 0 6 0) (100 / 101) = Point 0 0"
  by (simp add: evaluate_init_coords power_divide)

lemma dip_101: "evaluate (init_coords 29700 0 9601 0 (- 297) 0 6 0) 1 = Point 6 0"
  by (simp add: evaluate_init_coords)

lemma dip_table:
  "spec_table (init_coords 29700 0 9601 0 (- 297) 0 6 0) ! 98
     < spec_table (init_coords 29700 0 9601 0 (- 297) 0 6 0) ! 99"
  "spec_table (init_coords 29700 0 9601 0 (- 297) 0 6 0) ! 99
     = spec_table (init_coords 29700 0 9601 0 (- 297) 0 6 0) ! 100"
  "spec_table (init_coords 29700 0 9601 0 (- 297) 0 6 0) ! 100
     < spec_table (init_coords 29700 0 9601 0 (- 297) 0 6 0) ! 101"
proof -
  let ?c = "init_coords 29700 0 9601 0 (- 297) 0 6 0"
  have "spec_table ?c ! 98 < spec_table ?c ! Suc 98"
    by (rule spec_table_step_rise) (simp_all add: dip_98 dip_99)
  then show "spec_table ?c ! 98 < spec_table ?c ! 99" by simp
  have "spec_table ?c ! Suc 99 = spec_table ?c ! 99"
    by (rule spec_table_step_flat) (simp_all add: dip_99 dip_100)
  then show "spec_table ?c ! 99 = spec_table ?c ! 100" by simp
  have "spec_table ?c ! 100 < spec_table ?c ! Suc 100"
    by (rule spec_table_step_rise) (simp_all add: dip_100 dip_101)
  then show "spec_table ?c ! 100 < spec_table ?c ! 101" by simp
qed

lemma point_curve_length:
  "last (spec_table (init_coords 5 5 5 5 5 5 5 5)) = 0"
  by (simp add: last_spec_table spec_cumulative_def spec_segment_def evaluate_init_coords
      distance_eq_0)

section \<open>The claims on \<open>parametrize\<close>\<close>

text \<open>
  C10. For every curve object of zero total length, every entry of the table is zero,
  and \<open>parametrize\<close> returns 0 for every \<open>u\<close> (so also for every \<open>u\<close> in [0, 1])
  without raising: the first entry of the table equals the target length
  \<open>u * table[-1]\<close>, so the exact-match branch is the one taken.
\<close>

theorem parametrize_degenerate:
  assumes "curve_state c" and "fst (length_prop c) = 0"
  shows "fst (arc_lengths c) = replicate 102 0
    \<and> fst (arc_lengths c) ! 0 = u * last (fst (arc_lengths c))
    \<and> parametrize c u = Inr (0, snd (arc_lengths c))"
proof -
  have ok: "cache_ok c"
    using assms(1) by (simp add: curve_state_inv)
  have z: "last (spec_table c) = 0"
    using assms(2) by (simp add: cache_ok_length [OF ok])
  have tbl: "fst (arc_lengths c) = spec_table c"
    by (simp add: cache_ok_table [OF ok])
  show ?thesis
    unfolding tbl
    by (simp add: z zero_length_table [OF z] parametrize_zero_length [OF ok z] spec_table_0
        flip: zero_length_table [OF z])
qed

theorem parametrize_degenerate_witness:
  "curve_state (init_coords 5 5 5 5 5 5 5 5)
   \<and> fst (length_prop (init_coords 5 5 5 5 5 5 5 5)) = 0
   \<and> parametrize (init_coords 5 5 5 5 5 5 5 5) (1 / 2)
       = Inr (0, snd (arc_lengths (init_coords 5 5 5 5 5 5 5 5)))"
proof -
  have h1: "curve_state (init_coords 5 5 5 5 5 5 5 5)"
    by (rule curve_state_init_coords)
  have "cache_ok (init_coords 5 5 5 5 5 5 5 5)"
    using h1 by (simp add: curve_state_inv)
  then have h2: "fst (length_prop (init_coords 5 5 5 5 5 5 5 5)) = 0"
    by (simp add: cache_ok_length point_curve_length)
  show ?thesis
    using h1 h2 parametrize_degenerate [OF h1 h2, of "1 / 2"] by blast
qed




section \<open>The shrink loop\<close>

lemma line_length: "last (spec_table (init_coords 0 0 1 0 2 0 3 0)) = 3"
proof -
  have seg: "spec_segment (init_coords 0 0 1 0 2 0 3 0) 101 k = 3 / 101" for k
  proof -
    have "(3 * real k / 101 - (3 + 3 * real k) / 101)\<^sup>2 = (3 / 101)\<^sup>2"
      by (simp add: power2_eq_square field_simps)
    then show ?thesis
      by (simp add: spec_segment_def evaluate_init_coords distance_def)
  qed
  show ?thesis
    by (simp add: last_spec_table spec_cumulative_def seg)
qed

lemma length_prop_cache_ok:
  assumes "cache_ok c"
  shows "length_prop c =
     (last (spec_table c),
      c\<lparr>arc_lengths_cache := spec_table c, length_cache := last (spec_table c)\<rparr>)"
proof (cases "length_cache c \<le> 0")
  case True
  then show ?thesis by (rule length_prop_recompute)
next
  case False
  with assms have "arc_lengths_cache c = spec_table c" "length_cache c = last (spec_table c)"
    by (auto simp: cache_ok_def)
  then show ?thesis
    using False by (simp add: length_prop_cached)
qed

lemma length_prop_twice:
  assumes "cache_ok c"
  shows "length_prop (snd (length_prop c)) = length_prop c"
proof -
  have ok': "cache_ok (snd (length_prop c))"
    using assms by (rule cache_ok_length_prop)
  show ?thesis
    unfolding length_prop_cache_ok [OF ok']
    by (simp add: length_prop_cache_ok [OF assms])
qed

lemma shrink_loop_step:
  assumes "cache_ok c"
  shows "shrink_loop tp c s =
     (if last (spec_table c) < fst (snd (tp s))
      then shrink_loop tp (snd (length_prop c)) (s - 1)
      else Some (tp s, s, snd (length_prop c)))"
  by (subst shrink_loop.simps)
     (simp add: length_prop_cache_ok [OF assms] size_step_def split: prod.split)

lemma shrink_loop_stops:
  assumes "cache_ok c"
    and "fst (snd (tp (s - real k))) \<le> last (spec_table c)"
    and "\<forall>j<k. last (spec_table c) < fst (snd (tp (s - real j)))"
  shows "shrink_loop tp c s = Some (tp (s - real k), s - real k, snd (length_prop c))"
  using assms
proof (induction k arbitrary: c s)
  case 0
  then show ?case by (simp add: shrink_loop_step)
next
  case (Suc k)
  let ?c1 = "snd (length_prop c)"
  have ok1: "cache_ok ?c1"
    using Suc.prems(1) by (rule cache_ok_length_prop)
  have tbl: "spec_table ?c1 = spec_table c"
    by (simp add: length_prop_cache_ok [OF Suc.prems(1)])
  have wide: "last (spec_table c) < fst (snd (tp s))"
    using Suc.prems(3) by force
  have a: "fst (snd (tp (s - 1 - real k))) \<le> last (spec_table ?c1)"
    using Suc.prems(2) by (simp add: tbl algebra_simps)
  have b: "\<forall>j<k. last (spec_table ?c1) < fst (snd (tp (s - 1 - real j)))"
  proof (intro allI impI)
    fix j assume "j < k"
    then have "Suc j < Suc k" by simp
    with Suc.prems(3) have "last (spec_table c) < fst (snd (tp (s - real (Suc j))))"
      by blast
    moreover have "s - 1 - real j = s - real (Suc j)" by simp
    ultimately show "last (spec_table ?c1) < fst (snd (tp (s - 1 - real j)))"
      by (simp only: tbl)
  qed
  have "shrink_loop tp c s = shrink_loop tp ?c1 (s - 1)"
    using wide by (simp add: shrink_loop_step [OF Suc.prems(1)])
  also have "\<dots> = Some (tp (s - 1 - real k), s - 1 - real k, snd (length_prop ?c1))"
    using ok1 a b by (rule Suc.IH)
  also have "snd (length_prop ?c1) = ?c1"
    by (simp add: length_prop_twice [OF Suc.prems(1)])
  finally show ?case by (simp add: algebra_simps)
qed

lemma shrink_loop_returns:
  assumes "shrink_loop tp c s = Some r"
  shows "cache_ok c \<longrightarrow> (\<exists>k. fst (snd (tp (s - real k))) \<le> last (spec_table c)
      \<and> (\<forall>j<k. last (spec_table c) < fst (snd (tp (s - real j))))
      \<and> r = (tp (s - real k), s - real k, snd (length_prop c)))"
  using assms
proof (induction rule: shrink_loop.raw_induct [rotated 1, consumes 1, case_names step])
  case (step rec tp c s r)
  show ?case
  proof
    assume ok: "cache_ok c"
    let ?c1 = "snd (length_prop c)"
    have ok1: "cache_ok ?c1"
      using ok by (rule cache_ok_length_prop)
    have tbl: "spec_table ?c1 = spec_table c"
      by (simp add: length_prop_cache_ok [OF ok])
    obtain p w x where tp: "tp s = (p, w, x)"
      by (cases "tp s")
    have "(if last (spec_table c) < w then rec tp ?c1 (s - 1)
        else Some ((p, w, x), s, ?c1)) = Some r"
      using step(2) unfolding size_step_def
      by (cases "last (spec_table c) < w") (simp_all add: tp length_prop_cache_ok [OF ok])
    then have body: "(if last (spec_table c) < fst (snd (tp s)) then rec tp ?c1 (s - 1)
        else Some (tp s, s, ?c1)) = Some r"
      by (cases "last (spec_table c) < w") (simp_all add: tp)
    show "\<exists>k. fst (snd (tp (s - real k))) \<le> last (spec_table c)
      \<and> (\<forall>j<k. last (spec_table c) < fst (snd (tp (s - real j))))
      \<and> r = (tp (s - real k), s - real k, snd (length_prop c))"
    proof (cases "last (spec_table c) < fst (snd (tp s))")
      case False
      with body have "r = (tp s, s, ?c1)" by simp
      with False show ?thesis
        by (intro exI [of _ 0]) simp
    next
      case True
      with body have "rec tp ?c1 (s - 1) = Some r" by simp
      from step(1) [OF this] ok1 obtain k where
        k: "fst (snd (tp (s - 1 - real k))) \<le> last (spec_table c)"
          "\<forall>j<k. last (spec_table c) < fst (snd (tp (s - 1 - real j)))"
          "r = (tp (s - 1 - real k), s - 1 - real k, snd (length_prop ?c1))"
        by (auto simp: tbl)
      have all: "\<forall>j<Suc k. last (spec_table c) < fst (snd (tp (s - real j)))"
      proof (intro allI impI)
        fix j assume j: "j < Suc k"
        show "last (spec_table c) < fst (snd (tp (s - real j)))"
        proof (cases j)
          case 0
          with True show ?thesis by simp
        next
          case (Suc i)
          with j k(2) have "last (spec_table c) < fst (snd (tp (s - 1 - real i)))" by simp
          moreover have "s - 1 - real i = s - real j" by (simp add: Suc)
          ultimately show ?thesis by (simp only:)
        qed
      qed
      have "s - 1 - real k = s - real (Suc k)" by simp
      with k(1,3) all show ?thesis
        by (intro exI [of _ "Suc k"]) (simp add: length_prop_twice [OF ok])
    qed
  qed
qed

lemma shrink_loop_diverges:
  assumes "cache_ok c" and "\<forall>k. last (spec_table c) < fst (snd (tp (s - real k)))"
  shows "shrink_loop tp c s = None"
proof (cases "shrink_loop tp c s")
  case None
  then show ?thesis .
next
  case (Some r)
  from shrink_loop_returns [OF this] assms(1) obtain k where
    "fst (snd (tp (s - real k))) \<le> last (spec_table c)" by blast
  with assms(2) have False by (simp add: not_le [symmetric])
  then show ?thesis ..
qed


text \<open>
  C8, as stated, fails: the loop has no floor. On the straight curve from (0, 0) to (3, 0),
  of length 3, with a shaper that reports width 10 at every size, the loop started at
  size 12 never returns.
\<close>

theorem shrink_loop_counterexample:
  "shrink_loop (fixed_width 10) (init_coords 0 0 1 0 2 0 3 0) 12 = None"
proof (rule shrink_loop_diverges)
  show "cache_ok (init_coords 0 0 1 0 2 0 3 0)"
    using curve_state_init_coords by (simp add: curve_state_inv)
  show "\<forall>k. last (spec_table (init_coords 0 0 1 0 2 0 3 0))
      < fst (snd (fixed_width 10 (12 - real k)))"
    by (simp add: line_length fixed_width_def)
qed

text \<open>
  C8, amended. The loop starts from the nominal size and lowers the size by the fixed
  step 1 while the measured width exceeds the curve length. It returns exactly when the
  width is at most the curve length at one of the sizes \<open>size - k\<close>, \<open>k = 0, 1, 2, ..\<close>,
  and it then returns the first such size; there is no minimum size, so if the width
  exceeds the curve length at all these sizes the loop does not return.
\<close>

theorem shrink_loop_without_floor:
  assumes "curve_state c"
  shows "((\<exists>r. shrink_loop tp c s = Some r)
          \<longleftrightarrow> (\<exists>k. fst (snd (tp (s - real k))) \<le> fst (length_prop c)))
    \<and> (\<forall>k. fst (snd (tp (s - real k))) \<le> fst (length_prop c)
            \<and> (\<forall>j<k. fst (length_prop c) < fst (snd (tp (s - real j))))
          \<longrightarrow> shrink_loop tp c s = Some (tp (s - real k), s - real k, snd (length_prop c)))"
proof -
  have ok: "cache_ok c"
    using assms by (simp add: curve_state_inv)
  have len: "fst (length_prop c) = last (spec_table c)"
    using ok by (rule cache_ok_length)
  have stops: "shrink_loop tp c s = Some (tp (s - real k), s - real k, snd (length_prop c))"
    if "fst (snd (tp (s - real k))) \<le> last (spec_table c)"
      and "\<forall>j<k. last (spec_table c) < fst (snd (tp (s - real j)))" for k
    using ok that by (rule shrink_loop_stops)
  have "\<exists>r. shrink_loop tp c s = Some r"
    if ex: "\<exists>k. fst (snd (tp (s - real k))) \<le> last (spec_table c)"
  proof -
    define m where "m = (LEAST k. fst (snd (tp (s - real k))) \<le> last (spec_table c))"
    have a: "fst (snd (tp (s - real m))) \<le> last (spec_table c)"
      unfolding m_def using ex by (rule LeastI_ex)
    have b: "\<forall>j<m. last (spec_table c) < fst (snd (tp (s - real j)))"
    proof (intro allI impI)
      fix j assume "j < m"
      then have "\<not> fst (snd (tp (s - real j))) \<le> last (spec_table c)"
        unfolding m_def by (rule not_less_Least)
      then show "last (spec_table c) < fst (snd (tp (s - real j)))" by simp
    qed
    show ?thesis
      using stops [OF a b] by blast
  qed
  moreover have "\<exists>k. fst (snd (tp (s - real k))) \<le> last (spec_table c)"
    if "\<exists>r. shrink_loop tp c s = Some r"
  proof -
    from that obtain r where "shrink_loop tp c s = Some r" ..
    from shrink_loop_returns [OF this] ok show ?thesis by blast
  qed
  ultimately show ?thesis
    unfolding len using stops by blast
qed

theorem shrink_loop_without_floor_witness:
  "curve_state (init_coords 0 0 1 0 2 0 3 0)
   \<and> fst (length_prop (init_coords 0 0 1 0 2 0 3 0)) = 3
   \<and> fst (snd (width_is_size 5)) = 5
   \<and> fst (snd (width_is_size 4)) = 4
   \<and> fst (snd (width_is_size 3)) = 3
   \<and> shrink_loop width_is_size (init_coords 0 0 1 0 2 0 3 0) 5
       = Some (width_is_size 3, 3, snd (length_prop (init_coords 0 0 1 0 2 0 3 0)))"
proof -
  let ?c = "init_coords 0 0 1 0 2 0 3 0"
  have h: "curve_state ?c"
    by (rule curve_state_init_coords)
  have len: "fst (length_prop ?c) = 3"
    using h by (simp add: curve_state_inv cache_ok_length line_length)
  have a: "fst (snd (width_is_size (5 - real (2::nat)))) \<le> fst (length_prop ?c)"
    by (simp add: len width_is_size_def)
  have b: "\<forall>j<2::nat. fst (length_prop ?c) < fst (snd (width_is_size (5 - real j)))"
  proof (intro allI impI)
    fix j :: nat assume "j < 2"
    then have "real j \<le> 1" by simp
    then show "fst (length_prop ?c) < fst (snd (width_is_size (5 - real j)))"
      by (simp add: len width_is_size_def)
  qed
  have "shrink_loop width_is_size ?c 5
      = Some (width_is_size (5 - real (2::nat)), 5 - real (2::nat), snd (length_prop ?c))"
    using shrink_loop_without_floor [OF h, of width_is_size 5] a b by blast
  then show ?thesis
    using h len by (simp add: width_is_size_def)
qed

section \<open>Blend identity\<close>

lemma py_round_of_int: "py_round (of_int n) = n"
  by (simp add: py_round_def)

lemma bytes_round_trip: "rgb_to_bytes (rgb_from_bytes p) = p"
  by (cases p) (simp add: rgb_to_bytes_def rgb_from_bytes_def py_round_of_int)

lemma alpha_from_bytes: "va (rgb_from_bytes p) = 0 \<longleftrightarrow> snd (snd (snd p)) = 0"
  by (cases p) (simp add: rgb_from_bytes_def)

lemma blend_loop_transparent:
  assumes "\<forall>i \<in> set is. i < length r0_data \<and> i < length r1_data
      \<and> snd (snd (snd (r0_data ! i))) = 0"
  shows "blend_loop tint intensity r0_data r1_data is out
     = Inr (out @ map (\<lambda>i. r1_data ! i) is)"
  using assms
proof (induction "is" arbitrary: out)
  case Nil
  then show ?case by simp
next
  case (Cons i rest)
  then have i: "i < length r0_data" "i < length r1_data" "snd (snd (snd (r0_data ! i))) = 0"
    by simp_all
  have rest: "\<forall>i \<in> set rest. i < length r0_data \<and> i < length r1_data
      \<and> snd (snd (snd (r0_data ! i))) = 0"
    using Cons.prems by simp
  show ?case
    using i by (simp add: item_nth alpha_from_bytes bytes_round_trip Cons.IH [OF rest])
qed


text \<open>
  C5. For every base image and every mask image of the same width and height in which
  every mask pixel has alpha 0, whatever the tint and the intensity, the blend passes
  its size check and produces the base image itself, pixel for pixel; the conversion of
  a pixel to fractions and back to bytes returns the pixel unchanged.
\<close>

theorem blend_identity:
  assumes "well_formed descp_img" and "well_formed set_img"
    and "im_width set_img = im_width descp_img" and "im_height set_img = im_height descp_img"
    and "all_transparent set_img"
  shows "blend tint intensity set_img descp_img = Inr descp_img
    \<and> rgb_to_bytes (rgb_from_bytes p) = p"
proof -
  have n: "length (im_data set_img) = im_width descp_img * im_height descp_img"
    "length (im_data descp_img) = length (im_data set_img)"
    using assms(1-4) by (simp_all add: well_formed_def)
  have "\<forall>i \<in> set [0..<length (im_data set_img)].
      i < length (im_data set_img) \<and> i < length (im_data descp_img)
      \<and> snd (snd (snd (im_data set_img ! i))) = 0"
    using assms(5) n(2) by (simp add: all_transparent_def list_all_length)
  then have "blend_loop tint intensity (im_data set_img) (im_data descp_img)
      [0..<length (im_data set_img)] []
     = Inr ([] @ map (\<lambda>i. im_data descp_img ! i) [0..<length (im_data set_img)])"
    by (rule blend_loop_transparent)
  also have "map (\<lambda>i. im_data descp_img ! i) [0..<length (im_data set_img)] = im_data descp_img"
    unfolding n(2) [symmetric] by (rule map_nth)
  finally have "blend tint intensity set_img descp_img = Inr descp_img"
    using n(1) by (simp add: blend_def)
  then show ?thesis
    by (simp add: bytes_round_trip)
qed

theorem blend_identity_witness:
  "well_formed sample_base \<and> well_formed sample_mask
   \<and> im_width sample_mask = im_width sample_base
   \<and> im_height sample_mask = im_height sample_base
   \<and> all_transparent sample_mask
   \<and> blend (Vector4 1 (1 / 2) 0 1) 2 sample_mask sample_base = Inr sample_base"
proof -
  have h1: "well_formed sample_base"
    by (simp add: well_formed_def sample_base_def)
  have h2: "well_formed sample_mask"
    by (simp add: well_formed_def sample_mask_def)
  have h3: "im_width sample_mask = im_width sample_base"
    by (simp add: sample_mask_def sample_base_def)
  have h4: "im_height sample_mask = im_height sample_base"
    by (simp add: sample_mask_def sample_base_def)
  have h5: "all_transparent sample_mask"
    by (simp add: all_transparent_def sample_mask_def)
  show ?thesis
    using h1 h2 h3 h4 h5 blend_identity [OF h1 h2 h3 h4 h5, of "Vector4 1 (1 / 2) 0 1" 2]
    by blast
qed

section \<open>The pipeline\<close>

lemmas canvas_ops =
  setup_context_def py_print_def rect_ellipse_def clip_def reset_clip_def draw_def
  raised_def state_of_def truthy_def

lemma render_rarity:
  "render_component setup_context rarity_component legendary_data
     = Inr \<lparr>cur_path = [], clip_region = [[Ellipse 10 10 50 50]], drawn = [],
            stdout = [''ComponentType.rarity''], saved = [], written = False\<rparr>"
  by (simp add: render_component_def rarity_component_def legendary_data_def
      draw_clip_region_def type_repr_def canvas_ops Let_def)

lemma render_base_after_rarity:
  "render_component
     \<lparr>cur_path = [], clip_region = [[Ellipse 10 10 50 50]], drawn = [],
      stdout = [''ComponentType.rarity''], saved = [], written = False\<rparr>
     base_component default_data
   = Inr \<lparr>cur_path = [], clip_region = [],
          drawn = [(PngAsset base_image theme ''default'', [[Ellipse 10 10 50 50]])],
          stdout = [''ComponentType.rarity'', ''ComponentType.base''], saved = [],
          written = False\<rparr>"
  by (simp add: render_component_def base_component_def default_data_def base_image_def
      type_repr_def canvas_ops Let_def)

lemma demo_cdata_simps:
  "demo_cdata rarity_component = Some legendary_data"
  "demo_cdata base_component = Some default_data"
  "demo_cdata portrait_component = Some portrait_data"
  "demo_cdata cardset_component = Some cardset_data"
  by (simp_all add: demo_cdata_def rarity_component_def base_component_def
      portrait_component_def cardset_component_def)

lemma render_portrait:
  "render_component setup_context portrait_component portrait_data
     = Inl (AttributeError,
            \<lparr>cur_path = [], clip_region = [], drawn = [],
             stdout = [''ComponentType.portrait''], saved = [], written = False\<rparr>)"
  by (simp add: render_component_def portrait_component_def portrait_data_def
      draw_clip_region_def shape_type_path_def type_repr_def canvas_ops Let_def)

lemma sorted_demo:
  "sort_key comp_layer [base_component, portrait_component]
     = [portrait_component, base_component]"
  "sort_key comp_layer [cardset_component, base_component]
     = [cardset_component, base_component]"
  by (simp_all add: base_component_def portrait_component_def cardset_component_def)

lemma blend_size_mismatch:
  "length (im_data s) \<noteq> im_width d * im_height d \<Longrightarrow> blend t i s d = Inl AssertionError"
  by (simp add: blend_def)

lemma set_watermark_mismatch:
  assumes "length (im_data (data_set_img w))
      \<noteq> im_width (data_descp_img w) * im_height (data_descp_img w)"
    and "card_set_craftable w" and "image_path w \<notin> set (cache_files w)"
    and "icon_found w" and "custom_tint cu (cardtype w) = Some t"
  shows "set_watermark ctx cu (Some w) = Inl (AssertionError, ctx)"
  using assms by (simp add: set_watermark_def Let_def blend_size_mismatch)

lemma render_components_append:
  "render_components f ctx0 pre = Inr ctx \<Longrightarrow>
   render_components f ctx0 (pre @ cs) = render_components f ctx cs"
proof (induction pre arbitrary: ctx0)
  case Nil
  then show ?case by simp
next
  case (Cons c pre)
  then show ?case
    by (auto split: option.splits sum.splits)
qed

lemma render_components_raise:
  "f c = Some d \<Longrightarrow> raised (render_component ctx c d) = Some e \<Longrightarrow>
   render_components f ctx (c # rest) = render_component ctx c d"
  by (auto simp: raised_def split: sum.splits)


text \<open>
  C1 does not hold of the code: \<open>reset_clip\<close> is called only in the two branches that
  draw an image. The rarity layer of the example has an elliptic clip region and no
  asset for the key \<open>legendary\<close>: no image is drawn, its render ends with the clip still
  installed, and the image of the next layer is drawn under that clip.
\<close>

theorem clip_leaks_to_next_component:
  "raised (render_component setup_context rarity_component legendary_data) = None
   \<and> clip_region (state_of (render_component setup_context rarity_component legendary_data))
       = [[Ellipse 10 10 50 50]]
   \<and> drawn (state_of
         (render_components demo_cdata setup_context [rarity_component, base_component]))
       = [(PngAsset base_image theme ''default'', [[Ellipse 10 10 50 50]])]"
  by (simp add: render_rarity render_base_after_rarity demo_cdata_simps raised_def
      state_of_def)

text \<open>
  C7 does not hold of the code: for a clip region of shape curve, the \<open>elif\<close> chain of
  \<open>draw_clip_region\<close> evaluates \<open>ShapeType.path\<close> before it reaches the curve branch,
  and the enum has no such member. The AttributeError leaves \<open>render_component\<close> and
  \<open>main\<close>: the error line is not printed, nothing of the component is drawn, the next
  layer is not rendered, and the image is not written.
\<close>

theorem curve_clip_aborts_render:
  "raised (render_component setup_context portrait_component portrait_data)
       = Some AttributeError
   \<and> stdout (state_of (render_component setup_context portrait_component portrait_data))
       = [''ComponentType.portrait'']
   \<and> drawn (state_of (render_component setup_context portrait_component portrait_data)) = []
   \<and> raised (main demo_cdata [base_component, portrait_component]) = Some AttributeError
   \<and> drawn (state_of (main demo_cdata [base_component, portrait_component])) = []
   \<and> \<not> written (state_of (main demo_cdata [base_component, portrait_component]))"
  unfolding main_def sorted_demo
  by (simp add: render_portrait demo_cdata_simps raised_def state_of_def)

text \<open>
  C6, as stated, fails: nothing catches the AssertionError of the size check. In the
  example the mask has two pixels and the base image one; the card-set layer raises in
  its custom step, the base layer after it is never rendered, and the image is not
  written.
\<close>

theorem size_mismatch_counterexample:
  "raised (main demo_cdata [cardset_component, base_component]) = Some AssertionError
   \<and> drawn (state_of (main demo_cdata [cardset_component, base_component])) = []
   \<and> \<not> written (state_of (main demo_cdata [cardset_component, base_component]))"
proof -
  have "render_component setup_context cardset_component cardset_data
      = Inl (AssertionError,
             \<lparr>cur_path = [], clip_region = [], drawn = [],
              stdout = [''ComponentType.cardSet''], saved = [], written = False\<rparr>)"
    by (simp add: render_component_def cardset_component_def cardset_data_def
        watermark_custom_def custom_getattr_def set_watermark_def mismatched_def
        image_path_def blend_def sample_mask_def sample_small_def type_repr_def canvas_ops
        Let_def)
  then show ?thesis
    unfolding main_def sorted_demo
    by (simp add: demo_cdata_simps raised_def state_of_def)
qed

text \<open>
  C6, amended. When the number of pixels of the mask differs from width times height of
  the base image, the size check of the blend fails with an AssertionError (for a
  craftable set, no cached result, an existing icon and a tint for the card type, so that
  the blend is reached). The error ends the render of that component and, since nothing
  catches it, the whole loop over the components: the result of the loop is the result
  of the failed render, whatever components come after it.
\<close>

theorem size_mismatch_aborts:
  assumes "length (im_data (data_set_img w))
      \<noteq> im_width (data_descp_img w) * im_height (data_descp_img w)"
    and "card_set_craftable w" and "image_path w \<notin> set (cache_files w)"
    and "icon_found w" and "custom_tint cu (cardtype w) = Some t"
    and "custom_name cu = ''set_watermark''" and "comp_custom c = Some cu"
    and "comp_clip c = None" and "comp_text c = None" and "comp_curve c = None"
    and "cdata_of c = Some d" and "data_data d = Some w"
    and "render_components cdata_of ctx0 pre = Inr ctx"
  shows "raised (render_component ctx c d) = Some AssertionError
    \<and> render_components cdata_of ctx0 (pre @ c # rest) = render_component ctx c d"
proof -
  have wm: "set_watermark ctx' cu (Some w) = Inl (AssertionError, ctx')" for ctx'
    using assms(1-5) by (rule set_watermark_mismatch)
  have r: "raised (render_component ctx c d) = Some AssertionError"
    using assms(6-10) assms(12)
    by (simp add: render_component_def custom_getattr_def wm raised_def Let_def)
  have "render_components cdata_of ctx0 (pre @ c # rest)
      = render_components cdata_of ctx (c # rest)"
    using assms(13) by (rule render_components_append)
  also have "\<dots> = render_component ctx c d"
    using assms(11) r by (rule render_components_raise)
  finally show ?thesis
    using r by simp
qed

theorem size_mismatch_aborts_witness:
  "length (im_data (data_set_img mismatched))
      \<noteq> im_width (data_descp_img mismatched) * im_height (data_descp_img mismatched)
   \<and> card_set_craftable mismatched \<and> image_path mismatched \<notin> set (cache_files mismatched)
   \<and> icon_found mismatched
   \<and> custom_tint watermark_custom (cardtype mismatched) = Some (Vector4 1 1 1 1)
   \<and> custom_name watermark_custom = ''set_watermark''
   \<and> comp_custom cardset_component = Some watermark_custom
   \<and> comp_clip cardset_component = None \<and> comp_text cardset_component = None
   \<and> comp_curve cardset_component = None
   \<and> demo_cdata cardset_component = Some cardset_data
   \<and> data_data cardset_data = Some mismatched
   \<and> render_components demo_cdata setup_context [] = Inr setup_context
   \<and> raised (render_component setup_context cardset_component cardset_data)
       = Some AssertionError
   \<and> render_components demo_cdata setup_context ([] @ cardset_component # [base_component])
       = render_component setup_context cardset_component cardset_data"
proof -
  have h1: "length (im_data (data_set_img mismatched))
      \<noteq> im_width (data_descp_img mismatched) * im_height (data_descp_img mismatched)"
    by (simp add: mismatched_def sample_mask_def sample_small_def)
  have h2: "card_set_craftable mismatched"
    and h3: "image_path mismatched \<notin> set (cache_files mismatched)"
    and h4: "icon_found mismatched"
    by (simp_all add: mismatched_def)
  have h5: "custom_tint watermark_custom (cardtype mismatched) = Some (Vector4 1 1 1 1)"
    by (simp add: watermark_custom_def mismatched_def)
  have h6: "custom_name watermark_custom = ''set_watermark''"
    by (simp add: watermark_custom_def)
  have h7: "comp_custom cardset_component = Some watermark_custom"
    and h8: "comp_clip cardset_component = None"
    and h9: "comp_text cardset_component = None"
    and h10: "comp_curve cardset_component = None"
    by (simp_all add: cardset_component_def)
  have h11: "demo_cdata cardset_component = Some cardset_data"
    by (rule demo_cdata_simps)
  have h12: "data_data cardset_data = Some mismatched"
    by (simp add: cardset_data_def)
  have h13: "render_components demo_cdata setup_context [] = Inr setup_context"
    by simp
  show ?thesis
    using h1 h2 h3 h4 h5 h6 h7 h8 h9 h10 h11 h12 h13
      size_mismatch_aborts [OF h1 h2 h3 h4 h5 h6 h7 h8 h9 h10 h11 h12 h13,
        of "[base_component]"]
    by blast
qed

end
